theory Spec2Isabelle
  imports Complex_Main "HOL-Library.Log_Nat"
begin

section \<open>JavaScript numbers\<close>

text \<open>
  Every \<^verbatim>\<open>number\<close> of the source is an IEEE 754 binary64 value. A finite value is kept
  as the rational it denotes (the two zeros are identified: the source never tells them
  apart); the infinities and NaN are separate values. Each arithmetic operation computes
  the exact rational result and rounds it once with \<open>fl\<close>: to the nearest value with a
  53 bit significand, ties to the even significand, gradual underflow below
  \<open>2 powi (- 1022)\<close>, and overflow to an infinity from \<open>2 powi 1024 - 2 powi 970\<close> on.
\<close>

datatype number = Fin rat | PInf | NInf | NaN

definition rne :: "rat \<Rightarrow> int" where
  "rne q = (let f = \<lfloor>q\<rfloor>; d = q - of_int f in
     if d < 1 / 2 then f else if 1 / 2 < d then f + 1 else if even f then f else f + 1)"

text \<open>The binary exponent of a positive rational: \<open>2 powi ilog2 a \<le> a < 2 powi (ilog2 a + 1)\<close>.\<close>

definition ilog2 :: "rat \<Rightarrow> int" where
  "ilog2 a = (if 1 \<le> a then bitlen \<lfloor>a\<rfloor> - 1 else - bitlen (\<lceil>1 / a\<rceil> - 1))"

definition fl :: "rat \<Rightarrow> number" where
  "fl q = (if q = 0 then Fin 0 else
     let e = max (ilog2 \<bar>q\<bar>) (- 1022);
         u = 2 powi (e - 52);
         r = of_int (rne (q / u)) * u
     in if 2 powi 1024 \<le> \<bar>r\<bar> then (if 0 < q then PInf else NInf) else Fin r)"

text \<open>
  The same rounding to binary32, the element type of a \<^verbatim>\<open>Float32Array\<close>: a 24 bit
  significand, gradual underflow below \<open>2 powi (- 126)\<close>, overflow from
  \<open>2 powi 128 - 2 powi 103\<close> on. Storing a number in such an array rounds it so; the
  infinities and NaN are stored as they are.
\<close>

definition fl32 :: "rat \<Rightarrow> number" where
  "fl32 q = (if q = 0 then Fin 0 else
     let e = max (ilog2 \<bar>q\<bar>) (- 126);
         u = 2 powi (e - 23);
         r = of_int (rne (q / u)) * u
     in if 2 powi 128 \<le> \<bar>r\<bar> then (if 0 < q then PInf else NInf) else Fin r)"

fun toFloat32 :: "number \<Rightarrow> number" where
  "toFloat32 (Fin a) = fl32 a"
| "toFloat32 x = x"

definition representable :: "rat \<Rightarrow> bool" where
  "representable q \<longleftrightarrow> fl q = Fin q"

text \<open>A finite double: the value of a \<^verbatim>\<open>number\<close> for which \<^verbatim>\<open>Number.isFinite\<close> holds.\<close>

fun finite_number :: "number \<Rightarrow> bool" where
  "finite_number (Fin q) = representable q"
| "finite_number _ = False"

fun nneg :: "number \<Rightarrow> number" where
  "nneg (Fin a) = Fin (- a)"
| "nneg PInf = NInf"
| "nneg NInf = PInf"
| "nneg NaN = NaN"

fun nadd :: "number \<Rightarrow> number \<Rightarrow> number" where
  "nadd (Fin a) (Fin b) = fl (a + b)"
| "nadd NaN _ = NaN"
| "nadd _ NaN = NaN"
| "nadd PInf NInf = NaN"
| "nadd NInf PInf = NaN"
| "nadd PInf _ = PInf"
| "nadd NInf _ = NInf"
| "nadd _ PInf = PInf"
| "nadd _ NInf = NInf"

definition nsub :: "number \<Rightarrow> number \<Rightarrow> number" where
  "nsub x y = nadd x (nneg y)"

fun nmul :: "number \<Rightarrow> number \<Rightarrow> number" where
  "nmul (Fin a) (Fin b) = fl (a * b)"
| "nmul NaN _ = NaN"
| "nmul _ NaN = NaN"
| "nmul (Fin a) PInf = (if a = 0 then NaN else if 0 < a then PInf else NInf)"
| "nmul (Fin a) NInf = (if a = 0 then NaN else if 0 < a then NInf else PInf)"
| "nmul PInf (Fin b) = (if b = 0 then NaN else if 0 < b then PInf else NInf)"
| "nmul NInf (Fin b) = (if b = 0 then NaN else if 0 < b then NInf else PInf)"
| "nmul PInf PInf = PInf"
| "nmul PInf NInf = NInf"
| "nmul NInf PInf = NInf"
| "nmul NInf NInf = PInf"

text \<open>Division; a zero divisor is the positive zero.\<close>

fun ndiv :: "number \<Rightarrow> number \<Rightarrow> number" where
  "ndiv (Fin a) (Fin b) =
     (if b = 0 then (if a = 0 then NaN else if 0 < a then PInf else NInf) else fl (a / b))"
| "ndiv NaN _ = NaN"
| "ndiv _ NaN = NaN"
| "ndiv (Fin a) PInf = Fin 0"
| "ndiv (Fin a) NInf = Fin 0"
| "ndiv PInf (Fin b) = (if 0 \<le> b then PInf else NInf)"
| "ndiv NInf (Fin b) = (if 0 \<le> b then NInf else PInf)"
| "ndiv PInf PInf = NaN"
| "ndiv PInf NInf = NaN"
| "ndiv NInf PInf = NaN"
| "ndiv NInf NInf = NaN"

text \<open>\<^verbatim>\<open>Math.floor\<close>: the floor of a double is a double.\<close>

fun nfloor :: "number \<Rightarrow> number" where
  "nfloor (Fin a) = Fin (of_int \<lfloor>a\<rfloor>)"
| "nfloor x = x"

text \<open>The comparison \<^verbatim>\<open><\<close>: false whenever an operand is NaN.\<close>

fun nlt :: "number \<Rightarrow> number \<Rightarrow> bool" where
  "nlt (Fin a) (Fin b) = (a < b)"
| "nlt NaN _ = False"
| "nlt _ NaN = False"
| "nlt _ NInf = False"
| "nlt PInf _ = False"
| "nlt NInf _ = True"
| "nlt _ PInf = True"

text \<open>The comparison \<^verbatim>\<open><=\<close>; \<^verbatim>\<open>a > b\<close> is \<open>nlt b a\<close> and \<^verbatim>\<open>a >= b\<close> is \<open>nle b a\<close>.\<close>

fun nle :: "number \<Rightarrow> number \<Rightarrow> bool" where
  "nle (Fin a) (Fin b) = (a \<le> b)"
| "nle NaN _ = False"
| "nle _ NaN = False"
| "nle NInf _ = True"
| "nle _ PInf = True"
| "nle _ NInf = False"
| "nle PInf _ = False"

text \<open>\<^verbatim>\<open>Math.max\<close> of two arguments: NaN when either is NaN.\<close>

fun nmax :: "number \<Rightarrow> number \<Rightarrow> number" where
  "nmax NaN _ = NaN"
| "nmax _ NaN = NaN"
| "nmax a b = (if nlt a b then b else a)"

type_synonym vec2 = "number \<times> number"
type_synonym vec3 = "number \<times> number \<times> number"

section \<open>Coordinate conversion\<close>

text \<open>
  The private fields \<^verbatim>\<open>gridSize\<close>, \<^verbatim>\<open>originalWidth\<close> and \<^verbatim>\<open>originalHeight\<close> are
  initialised where they are declared and never assigned again.
\<close>

definition gridSize :: number where
  "gridSize = Fin 40"

definition originalWidth :: number where
  "originalWidth = Fin 800"

definition originalHeight :: number where
  "originalHeight = Fin 600"

definition worldToGameCoords :: "number \<Rightarrow> number \<Rightarrow> number \<Rightarrow> vec2" where
  "worldToGameCoords worldX worldY worldZ =
     (let gameX = nadd worldX (ndiv originalWidth (Fin 2));
          gameY = nadd worldZ (ndiv originalHeight (Fin 2))
      in (gameX, gameY))"

definition gameToWorldCoords :: "number \<Rightarrow> number \<Rightarrow> vec3" where
  "gameToWorldCoords gameX gameY =
     (let worldX = nsub gameX (ndiv originalWidth (Fin 2));
          worldZ = nsub gameY (ndiv originalHeight (Fin 2))
      in (worldX, Fin 0, worldZ))"

text \<open>
  The grid snap of \<^verbatim>\<open>screenToWorld\<close>:
  \<^verbatim>\<open>Math.floor(p / this.gridSize) * this.gridSize + this.gridSize / 2\<close>.
\<close>

definition snap :: "number \<Rightarrow> number" where
  "snap p = nadd (nmul (nfloor (ndiv p gridSize)) gridSize) (ndiv gridSize (Fin 2))"

text \<open>The composition the round-trip law is about.\<close>

definition roundTrip :: "number \<Rightarrow> number \<Rightarrow> vec2" where
  "roundTrip gameX gameY =
     (case gameToWorldCoords gameX gameY of (wx, wy, wz) \<Rightarrow> worldToGameCoords wx wy wz)"

section \<open>Scene objects and graphics resources\<close>

text \<open>
  An object of the scene graph has an identity (\<open>oid\<close>); a geometry and a material are
  graphics resources, each with a handle of its own. Object identities and resource
  handles are drawn from one counter (\<open>nextId\<close>). Calling \<^verbatim>\<open>dispose()\<close> on a resource
  appends its handle to \<open>disposed\<close>. Parameters that only affect shading (emissive colour,
  metalness, roughness, opacity, line width, shadow flags, rotation) are not kept.
\<close>

datatype obj_kind = MeshObj | LineObj | GroupObj | LightObj | GridHelperObj

datatype geom =
    BoxGeometry number number number
  | SphereGeometry number number number
  | PlaneGeometry number number
  | CircleGeometry number number
  | GridGeometry number number
  | BufferGeometry "vec3 list"

datatype colour = Hex nat | RGB number number number

datatype material_ref = NoMaterial | OneMaterial nat | MaterialArray "nat list"

record object3d =
  oid :: nat
  kind :: obj_kind
  geometry :: "(nat \<times> geom) option"
  material :: material_ref
  colour :: colour
  wireframe :: bool
  position :: vec3
  scale :: vec3
  visible :: bool

record camera =
  camLeft :: number
  camRight :: number
  camTop :: number
  camBottom :: number

type_synonym text_item = "number \<times> number \<times> string \<times> number \<times> number \<times> number \<times> number"

record manager =
  container :: bool
  domChildren :: "string list"
  scene :: "nat list"
  camera :: camera
  rendererSize :: vec2
  raycaster :: "(vec2 \<times> camera) option"
  mouse :: vec2
  currentHoverPosition :: vec2
  selectedTowerType :: number
  groundPlane :: "object3d option"
  towerPreviewMesh :: "object3d option"
  rangePreviewMesh :: "object3d option"
  invalidPlacementMesh :: "object3d option"
  ambientLight :: object3d
  directionalLight :: object3d
  textCanvas :: vec2
  textContext :: "text_item list option"
  sceneObjects :: "object3d list"
  listeners :: "string list"
  nextId :: nat
  disposed :: "nat list"
  forwarded :: "vec2 list"

text \<open>
  In \<open>manager\<close>: \<open>container\<close> says whether \<^verbatim>\<open>this.container\<close> is non-null; \<open>domChildren\<close>
  lists the children of the container element; \<open>scene\<close> lists the identities of the
  scene's children in insertion order; \<open>raycaster\<close> holds the device coordinate and the
  camera that \<^verbatim>\<open>setFromCamera\<close> last aimed the ray from (\<open>None\<close> before the first call); \<open>textContext\<close> is \<open>None\<close>
  when the overlay canvas gave no 2D context, and otherwise holds the text drawn on the
  overlay since it was last cleared; \<open>forwarded\<close> is the log of the calls made to
  \<^verbatim>\<open>gameApp.wasmLoader.handleClick\<close>.

  What the browser supplies at the time of a call: whether the element
  \<^verbatim>\<open>canvas-container\<close> exists, the container's client size, the bounding rectangle of
  the render surface (left, top, width, height), the points where the ray through a
  normalised device coordinate meets the ground plane (nearest first, as
  \<^verbatim>\<open>Raycaster.intersectObject\<close> returns them), the camera projection used for text, and
  whether \<^verbatim>\<open>window.gameApp\<close> and its \<^verbatim>\<open>wasmLoader\<close> are both set.
\<close>

record browser =
  containerPresent :: bool
  clientSize :: vec2
  boundingRect :: "number \<times> number \<times> number \<times> number"
  intersectGround :: "vec2 \<Rightarrow> vec3 list"
  project :: "vec3 \<Rightarrow> vec3"
  wasmLoader :: bool

datatype error = ContainerNotFound

definition resources :: "object3d \<Rightarrow> nat list" where
  "resources obj =
     (case geometry obj of None \<Rightarrow> [] | Some (h, _) \<Rightarrow> [h]) @
     (case material obj of NoMaterial \<Rightarrow> [] | OneMaterial m \<Rightarrow> [m] | MaterialArray ms \<Rightarrow> ms)"

definition light :: "nat \<Rightarrow> nat \<Rightarrow> vec3 \<Rightarrow> object3d" where
  "light i c p = \<lparr>oid = i, kind = LightObj, geometry = None, material = NoMaterial,
     colour = Hex c, wireframe = False, position = p,
     scale = (Fin 1, Fin 1, Fin 1), visible = True\<rparr>"

section \<open>Construction and initialisation\<close>

text \<open>
  The constructor; its argument says whether \<^verbatim>\<open>getContext('2d')\<close> gave a context. The four
  lights get the identities 0 to 3 (ambient, directional, fill, rim). The colours are
  0x444444, 0xffffff, 0x8888ff and 0x0044ff.
\<close>

definition new_ThreeJSManager :: "bool \<Rightarrow> manager" where
  "new_ThreeJSManager has2d =
     (let aspectRatio = ndiv originalWidth originalHeight;
          frustumSize = Fin 600
      in \<lparr>container = False,
          domChildren = [],
          scene = [0, 1, 2, 3],
          camera = \<lparr>camLeft = ndiv (nmul frustumSize aspectRatio) (Fin (- 2)),
                     camRight = ndiv (nmul frustumSize aspectRatio) (Fin 2),
                     camTop = ndiv frustumSize (Fin 2),
                     camBottom = ndiv frustumSize (Fin (- 2))\<rparr>,
          rendererSize = (Fin 300, Fin 150),
          raycaster = None,
          mouse = (Fin 0, Fin 0),
          currentHoverPosition = (Fin (- 1), Fin (- 1)),
          selectedTowerType = Fin 0,
          groundPlane = None,
          towerPreviewMesh = None,
          rangePreviewMesh = None,
          invalidPlacementMesh = None,
          ambientLight = light 0 4473924 (Fin 0, Fin 0, Fin 0),
          directionalLight = light 1 16777215 (Fin 300, Fin 400, Fin 300),
          textCanvas = (Fin 300, Fin 150),
          textContext = (if has2d then Some [] else None),
          sceneObjects = [],
          listeners = [],
          nextId = 4,
          disposed = [],
          forwarded = []\<rparr>)"

text \<open>
  \<^verbatim>\<open>createTowerPreviewMeshes\<close>: the placement cube (colour 0x00ffee), the range disc and
  the invalid marker, all invisible, all added to the scene and none to \<open>sceneObjects\<close>.
  The two bars of the marker are children of the group, not of the scene.
\<close>

definition createTowerPreviewMeshes :: "manager \<Rightarrow> manager" where
  "createTowerPreviewMeshes s =
     (let n = nextId s;
          size = Fin 30;
          tower = \<lparr>oid = n + 2, kind = MeshObj,
                   geometry = Some (n, BoxGeometry (nmul size (fl (4 / 5))) size (nmul size (fl (4 / 5)))),
                   material = OneMaterial (n + 1), colour = Hex 65518, wireframe = False,
                   position = (Fin 0, Fin 0, Fin 0), scale = (Fin 1, Fin 1, Fin 1),
                   visible = False\<rparr>;
          rangeDisc = \<lparr>oid = n + 5, kind = MeshObj,
                   geometry = Some (n + 3, CircleGeometry (Fin 100) (Fin 64)),
                   material = OneMaterial (n + 4), colour = Hex 65518, wireframe = False,
                   position = (Fin 0, Fin 0, Fin 0), scale = (Fin 1, Fin 1, Fin 1),
                   visible = False\<rparr>;
          invalid = \<lparr>oid = n + 6, kind = GroupObj, geometry = None, material = NoMaterial,
                     colour = Hex 16711680, wireframe = False,
                     position = (Fin 0, Fin 0, Fin 0), scale = (Fin 1, Fin 1, Fin 1),
                     visible = False\<rparr>
      in s\<lparr>towerPreviewMesh := Some tower,
           rangePreviewMesh := Some rangeDisc,
           invalidPlacementMesh := Some invalid,
           scene := scene s @ [oid tower, oid rangeDisc, oid invalid],
           nextId := n + 12\<rparr>)"

text \<open>
  \<^verbatim>\<open>createGroundPlane\<close>: the ground mesh (geometry, grid texture, material) and the grid
  helper, both added to the scene, then the preview meshes.
\<close>

definition createGroundPlane :: "manager \<Rightarrow> manager" where
  "createGroundPlane s =
     (let n = nextId s;
          ground = \<lparr>oid = n + 3, kind = MeshObj,
                    geometry = Some (n, PlaneGeometry originalWidth originalHeight),
                    material = OneMaterial (n + 2), colour = Hex 2236962, wireframe = False,
                    position = (Fin 0, Fin 0, Fin 0), scale = (Fin 1, Fin 1, Fin 1),
                    visible = True\<rparr>;
          gridHelper = \<lparr>oid = n + 6, kind = GridHelperObj,
                        geometry = Some (n + 4, GridGeometry (nmax originalWidth originalHeight)
                                      (ndiv (nmax originalWidth originalHeight) gridSize)),
                        material = OneMaterial (n + 5), colour = Hex 4473924, wireframe = False,
                        position = (Fin 0, fl (1 / 10), Fin 0), scale = (Fin 1, Fin 1, Fin 1),
                        visible = True\<rparr>
      in createTowerPreviewMeshes
           (s\<lparr>groundPlane := Some ground,
              scene := scene s @ [oid ground, oid gridHelper],
              nextId := n + 7\<rparr>))"

definition setupEventListeners :: "manager \<Rightarrow> manager" where
  "setupEventListeners s =
     s\<lparr>listeners := listeners s @
        [''mousemove'', ''mouseleave'', ''click'', ''touchstart'', ''touchmove'', ''touchend'',
         ''resize'']\<rparr>"

text \<open>Assigning the width or height of a canvas also erases what was drawn on it.\<close>

definition handleResize :: "browser \<Rightarrow> manager \<Rightarrow> manager" where
  "handleResize env s =
     (if \<not> container s then s
      else
        let containerWidth = fst (clientSize env);
            containerHeight = snd (clientSize env);
            aspectRatio = ndiv containerWidth containerHeight;
            frustumSize = Fin 600
        in s\<lparr>camera := \<lparr>camLeft = ndiv (nmul frustumSize aspectRatio) (Fin (- 2)),
                          camRight = ndiv (nmul frustumSize aspectRatio) (Fin 2),
                          camTop = ndiv frustumSize (Fin 2),
                          camBottom = ndiv frustumSize (Fin (- 2))\<rparr>,
             rendererSize := (containerWidth, containerHeight),
             textCanvas := (containerWidth, containerHeight),
             textContext := map_option (\<lambda>_. []) (textContext s)\<rparr>)"

text \<open>
  \<^verbatim>\<open>appendChild\<close> puts a node last among the children; a node that is a child already
  is moved, not duplicated.
\<close>

definition appendChild :: "string \<Rightarrow> string list \<Rightarrow> string list" where
  "appendChild node children = remove1 node children @ [node]"

text \<open>
  \<^verbatim>\<open>initialize\<close> throws when the container element is missing (after it has stored the
  null in \<^verbatim>\<open>this.container\<close>); otherwise it returns the logical dimensions.
\<close>

definition initialize :: "browser \<Rightarrow> manager \<Rightarrow> (error + vec2) \<times> manager" where
  "initialize env s =
     (let s0 = s\<lparr>container := containerPresent env\<rparr>
      in if \<not> container s0 then (Inl ContainerNotFound, s0)
         else
           let s1 = s0\<lparr>rendererSize := (originalWidth, originalHeight),
                       domChildren := appendChild ''renderer.domElement'' (domChildren s0)\<rparr>;
               s2 = s1\<lparr>textCanvas := (originalWidth, originalHeight),
                       textContext := map_option (\<lambda>_. []) (textContext s1),
                       domChildren := appendChild ''textCanvas'' (domChildren s1)\<rparr>;
               s3 = createGroundPlane s2;
               s4 = setupEventListeners s3;
               s5 = handleResize env s4
           in (Inr (originalWidth, originalHeight), s5))"

section \<open>Pointer input\<close>

text \<open>
  \<^verbatim>\<open>screenToWorld\<close>. The render surface always exists once the constructor has run, so
  only the missing ground plane returns early. The normalised device coordinate is
  stored in \<^verbatim>\<open>this.mouse\<close> and the raycaster is aimed from it and the camera
  (\<^verbatim>\<open>setFromCamera\<close>) before the ground plane is intersected.
\<close>

definition screenToWorld :: "browser \<Rightarrow> number \<Rightarrow> number \<Rightarrow> manager \<Rightarrow> vec3 option \<times> manager" where
  "screenToWorld env screenX screenY s =
     (if groundPlane s = None then (None, s)
      else
        case boundingRect env of (rectLeft, rectTop, rectWidth, rectHeight) \<Rightarrow>
          let mouseX = nsub (nmul (ndiv (nsub screenX rectLeft) rectWidth) (Fin 2)) (Fin 1);
              mouseY = nadd (nmul (nneg (ndiv (nsub screenY rectTop) rectHeight)) (Fin 2)) (Fin 1);
              s' = s\<lparr>mouse := (mouseX, mouseY),
                     raycaster := Some ((mouseX, mouseY), camera s)\<rparr>
          in case intersectGround env (mouseX, mouseY) of
               [] \<Rightarrow> (None, s')
             | (pointX, pointY, pointZ) # _ \<Rightarrow> (Some (snap pointX, Fin 0, snap pointZ), s'))"

definition handleMouseMove :: "browser \<Rightarrow> vec2 \<Rightarrow> manager \<Rightarrow> manager" where
  "handleMouseMove env client s =
     (case screenToWorld env (fst client) (snd client) s of
        (None, s') \<Rightarrow> s'
      | (Some (wx, wy, wz), s') \<Rightarrow> s'\<lparr>currentHoverPosition := worldToGameCoords wx wy wz\<rparr>)"

definition hide :: "object3d option \<Rightarrow> object3d option" where
  "hide = map_option (\<lambda>obj. obj\<lparr>visible := False\<rparr>)"

definition handleMouseLeave :: "manager \<Rightarrow> manager" where
  "handleMouseLeave s =
     s\<lparr>currentHoverPosition := (Fin (- 1), Fin (- 1)),
       towerPreviewMesh := hide (towerPreviewMesh s),
       rangePreviewMesh := hide (rangePreviewMesh s),
       invalidPlacementMesh := hide (invalidPlacementMesh s)\<rparr>"

definition handleClick :: "browser \<Rightarrow> vec2 \<Rightarrow> manager \<Rightarrow> manager" where
  "handleClick env client s =
     (case screenToWorld env (fst client) (snd client) s of
        (None, s') \<Rightarrow> s'
      | (Some (wx, wy, wz), s') \<Rightarrow>
          let gamePos = worldToGameCoords wx wy wz
          in if wasmLoader env then s'\<lparr>forwarded := forwarded s' @ [gamePos]\<rparr> else s')"

text \<open>A touch event carries the list of the client positions of its touches.\<close>

definition handleTouchStart :: "browser \<Rightarrow> vec2 list \<Rightarrow> manager \<Rightarrow> manager" where
  "handleTouchStart env touches s =
     (case touches of
        [touch] \<Rightarrow>
          (case screenToWorld env (fst touch) (snd touch) s of
             (None, s') \<Rightarrow> s'
           | (Some (wx, wy, wz), s') \<Rightarrow> s'\<lparr>currentHoverPosition := worldToGameCoords wx wy wz\<rparr>)
      | _ \<Rightarrow> s)"

definition handleTouchMove :: "browser \<Rightarrow> vec2 list \<Rightarrow> manager \<Rightarrow> manager" where
  "handleTouchMove env touches s =
     (case touches of
        [touch] \<Rightarrow>
          (case screenToWorld env (fst touch) (snd touch) s of
             (None, s') \<Rightarrow> s'
           | (Some (wx, wy, wz), s') \<Rightarrow> s'\<lparr>currentHoverPosition := worldToGameCoords wx wy wz\<rparr>)
      | _ \<Rightarrow> s)"

definition handleTouchEnd :: "browser \<Rightarrow> manager \<Rightarrow> manager" where
  "handleTouchEnd env s =
     (let s' = (if wasmLoader env \<and> nle (Fin 0) (fst (currentHoverPosition s))
                    \<and> nle (Fin 0) (snd (currentHoverPosition s))
                then s\<lparr>forwarded := forwarded s @ [currentHoverPosition s]\<rparr> else s)
      in s'\<lparr>currentHoverPosition := (Fin (- 1), Fin (- 1))\<rparr>)"

section \<open>Clearing and drawing\<close>

text \<open>
  What one round of the loop of \<^verbatim>\<open>clear\<close> disposes for a tracked object: the geometry
  and the material or materials, and only when the object is an instance of
  \<^verbatim>\<open>THREE.Mesh\<close>. \<^verbatim>\<open>THREE.Line\<close> is not a subclass of \<^verbatim>\<open>THREE.Mesh\<close>.
\<close>

definition disposeOf :: "object3d \<Rightarrow> nat list" where
  "disposeOf obj = (if kind obj = MeshObj then resources obj else [])"

fun clearLoop :: "object3d list \<Rightarrow> manager \<Rightarrow> manager" where
  "clearLoop [] s = s"
| "clearLoop (obj # objs) s =
     clearLoop objs (s\<lparr>scene := remove1 (oid obj) (scene s),
                       disposed := disposed s @ disposeOf obj\<rparr>)"

definition clear :: "manager \<Rightarrow> manager" where
  "clear s =
     (let s1 = clearLoop (sceneObjects s) s;
          s2 = s1\<lparr>sceneObjects := []\<rparr>
      in case textContext s2 of None \<Rightarrow> s2 | Some _ \<Rightarrow> s2\<lparr>textContext := Some []\<rparr>)"

text \<open>\<^verbatim>\<open>this.scene.add(obj); this.sceneObjects.push(obj)\<close> for a new object.\<close>

definition addTracked :: "object3d \<Rightarrow> nat \<Rightarrow> manager \<Rightarrow> manager" where
  "addTracked obj n s =
     s\<lparr>scene := scene s @ [oid obj], sceneObjects := sceneObjects s @ [obj], nextId := n\<rparr>"

definition drawRect ::
  "number \<Rightarrow> number \<Rightarrow> number \<Rightarrow> number \<Rightarrow> number \<Rightarrow> number \<Rightarrow> number \<Rightarrow> manager \<Rightarrow> manager" where
  "drawRect x y width height r g b s =
     (case gameToWorldCoords (nadd x (ndiv width (Fin 2))) (nadd y (ndiv height (Fin 2))) of
        (wx, wy, wz) \<Rightarrow>
          let size = nmax width height;
              n = nextId s;
              mesh = \<lparr>oid = n + 2, kind = MeshObj,
                      geometry = Some (n, BoxGeometry (nmul size (fl (4 / 5))) size
                                            (nmul size (fl (4 / 5)))),
                      material = OneMaterial (n + 1),
                      colour = RGB (ndiv r (Fin 255)) (ndiv g (Fin 255)) (ndiv b (Fin 255)),
                      wireframe = False,
                      position = (wx, ndiv size (Fin 2), wz),
                      scale = (Fin 1, Fin 1, Fin 1), visible = True\<rparr>
          in addTracked mesh (n + 3) s)"

definition drawCircle ::
  "number \<Rightarrow> number \<Rightarrow> number \<Rightarrow> number \<Rightarrow> number \<Rightarrow> number \<Rightarrow> bool \<Rightarrow> manager \<Rightarrow> manager" where
  "drawCircle x y radius r g b fill s =
     (if (\<not> fill \<and> nlt radius (Fin 15)) \<or> (nlt y (Fin 20) \<and> nlt radius (Fin 10))
          \<or> nlt radius (Fin 5)
      then s
      else
        case gameToWorldCoords x y of
          (wx, wy, wz) \<Rightarrow>
            let n = nextId s;
                hovering = Fin 2;
                mesh = \<lparr>oid = n + 2, kind = MeshObj,
                        geometry = Some (n, SphereGeometry radius (Fin 16) (Fin 16)),
                        material = OneMaterial (n + 1),
                        colour = RGB (ndiv r (Fin 255)) (ndiv g (Fin 255)) (ndiv b (Fin 255)),
                        wireframe = (\<not> fill),
                        position = (wx, nadd radius hovering, wz),
                        scale = (Fin 1, Fin 1, Fin 1), visible = True\<rparr>
            in addTracked mesh (n + 3) s)"

definition drawLine ::
  "number \<Rightarrow> number \<Rightarrow> number \<Rightarrow> number \<Rightarrow> number \<Rightarrow> number \<Rightarrow> number \<Rightarrow> number \<Rightarrow> manager
     \<Rightarrow> manager" where
  "drawLine x1 y1 x2 y2 thickness r g b s =
     (case gameToWorldCoords x1 y1 of
        (wx1, wy1, wz1) \<Rightarrow>
          case gameToWorldCoords x2 y2 of
            (wx2, wy2, wz2) \<Rightarrow>
              let n = nextId s;
                  points = [(wx1, Fin 5, wz1), (wx2, Fin 5, wz2)];
                  line = \<lparr>oid = n + 2, kind = LineObj,
                          geometry = Some (n, BufferGeometry points),
                          material = OneMaterial (n + 1),
                          colour = RGB (ndiv r (Fin 255)) (ndiv g (Fin 255)) (ndiv b (Fin 255)),
                          wireframe = False,
                          position = (Fin 0, Fin 0, Fin 0),
                          scale = (Fin 1, Fin 1, Fin 1), visible = True\<rparr>
              in addTracked line (n + 3) s)"

definition drawTriangle ::
  "number \<Rightarrow> number \<Rightarrow> number \<Rightarrow> number \<Rightarrow> number \<Rightarrow> number \<Rightarrow> number \<Rightarrow> number \<Rightarrow> number
     \<Rightarrow> bool \<Rightarrow> manager \<Rightarrow> manager" where
  "drawTriangle x1 y1 x2 y2 x3 y3 r g b fill s =
     (case gameToWorldCoords x1 y1 of
        (wx1, wy1, wz1) \<Rightarrow>
          case gameToWorldCoords x2 y2 of
            (wx2, wy2, wz2) \<Rightarrow>
              case gameToWorldCoords x3 y3 of
                (wx3, wy3, wz3) \<Rightarrow>
                  let n = nextId s;
                      vertices =
                        [(toFloat32 wx1, toFloat32 (Fin 5), toFloat32 wz1),
                         (toFloat32 wx2, toFloat32 (Fin 5), toFloat32 wz2),
                         (toFloat32 wx3, toFloat32 (Fin 5), toFloat32 wz3)];
                      mesh = \<lparr>oid = n + 2, kind = (if fill then MeshObj else LineObj),
                              geometry = Some (n, BufferGeometry vertices),
                              material = OneMaterial (n + 1),
                              colour = RGB (ndiv r (Fin 255)) (ndiv g (Fin 255)) (ndiv b (Fin 255)),
                              wireframe = False,
                              position = (Fin 0, Fin 0, Fin 0),
                              scale = (Fin 1, Fin 1, Fin 1), visible = True\<rparr>
                  in addTracked mesh (n + 3) s)"

definition drawText ::
  "browser \<Rightarrow> number \<Rightarrow> number \<Rightarrow> string \<Rightarrow> number \<Rightarrow> number \<Rightarrow> number \<Rightarrow> number \<Rightarrow> manager
     \<Rightarrow> manager" where
  "drawText env x y text size' r g b s =
     (case textContext s of
        None \<Rightarrow> s
      | Some items \<Rightarrow>
          case gameToWorldCoords x y of
            (wx, wy, wz) \<Rightarrow>
              case project env (wx, Fin 30, wz) of
                (vx, vy, vz) \<Rightarrow>
                  let screenX = nmul (nadd (nmul vx (Fin (1 / 2))) (Fin (1 / 2))) (fst (textCanvas s));
                      screenY = nmul (nadd (nmul (nneg vy) (Fin (1 / 2))) (Fin (1 / 2)))
                                  (snd (textCanvas s))
                  in s\<lparr>textContext := Some (items @ [(screenX, screenY, text, size', r, g, b)])\<rparr>)"

text \<open>\<^verbatim>\<open>drawTowerPreview\<close>; 0x00ffee is 65518 and 0xff0000 is 16711680.\<close>

definition drawTowerPreview :: "number \<Rightarrow> number \<Rightarrow> bool \<Rightarrow> number \<Rightarrow> manager \<Rightarrow> manager" where
  "drawTowerPreview x y canPlace range' s =
     (if nlt x (Fin 0) \<or> nlt y (Fin 0)
      then s\<lparr>towerPreviewMesh := hide (towerPreviewMesh s),
             rangePreviewMesh := hide (rangePreviewMesh s),
             invalidPlacementMesh := hide (invalidPlacementMesh s)\<rparr>
      else
        case gameToWorldCoords x y of
          (wx, wy, wz) \<Rightarrow>
            let size = Fin 30;
                tower = map_option
                  (\<lambda>m. m\<lparr>position := (wx, ndiv size (Fin 2), wz), visible := True,
                          colour := Hex (if canPlace then 65518 else 16711680)\<rparr>)
                  (towerPreviewMesh s);
                rangeMesh =
                  (if canPlace \<and> nlt (Fin 0) range'
                   then map_option
                     (\<lambda>m. m\<lparr>position := (wx, Fin (1 / 2), wz),
                             scale := (ndiv range' (Fin 100), ndiv range' (Fin 100),
                                       ndiv range' (Fin 100)),
                             visible := True\<rparr>)
                     (rangePreviewMesh s)
                   else hide (rangePreviewMesh s));
                invalid = map_option
                  (\<lambda>m. m\<lparr>position := (wx, Fin 10, wz), visible := (\<not> canPlace)\<rparr>)
                  (invalidPlacementMesh s)
            in s\<lparr>towerPreviewMesh := tower,
                 rangePreviewMesh := rangeMesh,
                 invalidPlacementMesh := invalid\<rparr>)"

definition setSelectedTowerType :: "number \<Rightarrow> manager \<Rightarrow> manager" where
  "setSelectedTowerType type s = s\<lparr>selectedTowerType := type\<rparr>"

definition getHoverPosition :: "manager \<Rightarrow> vec2" where
  "getHoverPosition s = currentHoverPosition s"

definition getDimensions :: "manager \<Rightarrow> vec2" where
  "getDimensions s = (originalWidth, originalHeight)"

section \<open>Sequences of calls\<close>

datatype draw_call =
    DrawRect number number number number number number number
  | DrawCircle number number number number number number bool
  | DrawLine number number number number number number number number
  | DrawTriangle number number number number number number number number number bool

fun draw :: "draw_call \<Rightarrow> manager \<Rightarrow> manager" where
  "draw (DrawRect x y w h r g b) s = drawRect x y w h r g b s"
| "draw (DrawCircle x y radius r g b fill) s = drawCircle x y radius r g b fill s"
| "draw (DrawLine x1 y1 x2 y2 t r g b) s = drawLine x1 y1 x2 y2 t r g b s"
| "draw (DrawTriangle x1 y1 x2 y2 x3 y3 r g b fill) s = drawTriangle x1 y1 x2 y2 x3 y3 r g b fill s"

fun draws :: "draw_call list \<Rightarrow> manager \<Rightarrow> manager" where
  "draws [] s = s"
| "draws (c # cs) s = draws cs (draw c s)"

text \<open>
  The listeners that \<^verbatim>\<open>setupEventListeners\<close> registers: each event goes to its handler.
\<close>

datatype event =
    MouseMove vec2
  | MouseLeave
  | Click vec2
  | TouchStart "vec2 list"
  | TouchMove "vec2 list"
  | TouchEnd
  | Resize

fun handleEvent :: "browser \<Rightarrow> event \<Rightarrow> manager \<Rightarrow> manager" where
  "handleEvent env (MouseMove client) s = handleMouseMove env client s"
| "handleEvent env MouseLeave s = handleMouseLeave s"
| "handleEvent env (Click client) s = handleClick env client s"
| "handleEvent env (TouchStart touches) s = handleTouchStart env touches s"
| "handleEvent env (TouchMove touches) s = handleTouchMove env touches s"
| "handleEvent env TouchEnd s = handleTouchEnd env s"
| "handleEvent env Resize s = handleResize env s"

text \<open>
  Everything that can happen to a manager after its construction: a call of the public
  interface or an event, each with the browser as it is at that time.
\<close>

datatype call =
    Initialize browser
  | Clear
  | Draw draw_call
  | DrawText browser number number string number number number number
  | DrawTowerPreview number number bool number
  | SetSelectedTowerType number
  | Event browser event

fun perform :: "call \<Rightarrow> manager \<Rightarrow> manager" where
  "perform (Initialize env) s = snd (initialize env s)"
| "perform Clear s = clear s"
| "perform (Draw c) s = draw c s"
| "perform (DrawText env x y text size' r g b) s = drawText env x y text size' r g b s"
| "perform (DrawTowerPreview x y canPlace range') s = drawTowerPreview x y canPlace range' s"
| "perform (SetSelectedTowerType type) s = setSelectedTowerType type s"
| "perform (Event env ev) s = handleEvent env ev s"

fun run :: "call list \<Rightarrow> manager \<Rightarrow> manager" where
  "run [] s = s"
| "run (c # cs) s = run cs (perform c s)"

section \<open>Long-lived objects and tracked objects\<close>

text \<open>
  The objects the manager keeps for its whole life: the two lights it holds, the ground
  plane and the three preview primitives (once created).
\<close>

definition held :: "object3d option \<Rightarrow> object3d list" where
  "held x = (case x of None \<Rightarrow> [] | Some obj \<Rightarrow> [obj])"

definition permanent :: "manager \<Rightarrow> object3d list" where
  "permanent s =
     [ambientLight s, directionalLight s] @ held (groundPlane s) @ held (towerPreviewMesh s)
       @ held (rangePreviewMesh s) @ held (invalidPlacementMesh s)"

text \<open>
  The identities and handles an object occupies, those of the long-lived objects (with
  the four lights of the constructor, two of which the manager keeps no reference to),
  and those of the tracked objects. \<open>apart\<close> says that no tracked object is a long-lived
  object or shares a resource with one, and that everything in use is below the counter.
\<close>

definition footprint :: "object3d \<Rightarrow> nat set" where
  "footprint obj = insert (oid obj) (set (resources obj))"

definition lightIds :: "nat list" where
  "lightIds = [0, 1, 2, 3]"

definition longLived :: "manager \<Rightarrow> nat set" where
  "longLived s = set lightIds \<union> (\<Union>obj \<in> set (permanent s). footprint obj)"

definition tracked :: "manager \<Rightarrow> nat set" where
  "tracked s = (\<Union>obj \<in> set (sceneObjects s). footprint obj)"

definition apart :: "manager \<Rightarrow> bool" where
  "apart s \<longleftrightarrow>
     longLived s \<inter> tracked s = {} \<and> (\<forall>i \<in> longLived s \<union> tracked s. i < nextId s)"

section \<open>A browser and a manager to run examples on\<close>

text \<open>
  A browser with an 800 by 600 container and render surface at the origin of the page,
  in which every ray meets the ground plane in the given points.
\<close>

definition testBrowser :: "bool \<Rightarrow> vec3 list \<Rightarrow> bool \<Rightarrow> browser" where
  "testBrowser present hits loader =
     \<lparr>containerPresent = present, clientSize = (Fin 800, Fin 600),
      boundingRect = (Fin 0, Fin 0, Fin 800, Fin 600),
      intersectGround = (\<lambda>_. hits), project = (\<lambda>v. v), wasmLoader = loader\<rparr>"

text \<open>The manager after \<^verbatim>\<open>new ThreeJSManager(...)\<close> and a successful \<^verbatim>\<open>initialize()\<close>.\<close>

definition ready :: manager where
  "ready = snd (initialize (testBrowser True [] True) (new_ThreeJSManager True))"

text \<open>The same manager after a frame that drew one rectangle and one line.\<close>

definition busy :: manager where
  "busy = run [Initialize (testBrowser True [] True),
               Draw (DrawRect (Fin 0) (Fin 0) (Fin 10) (Fin 10) (Fin 255) (Fin 255) (Fin 255)),
               Draw (DrawLine (Fin 0) (Fin 0) (Fin 10) (Fin 10) (Fin 1) (Fin 255) (Fin 255) (Fin 255))]
              (new_ThreeJSManager True)"

section \<open>Rounding\<close>

lemma rne_of_int: "rne (of_int z) = z"
  by (simp add: rne_def)

lemma pow2_powi_nat: "0 \<le> e \<Longrightarrow> (2::rat) powi e = of_int (2 ^ nat e)"
  by (simp add: power_int_def)

lemma ilog2_ge1:
  assumes "1 \<le> a"
  shows "2 powi ilog2 a \<le> a \<and> a < 2 powi (ilog2 a + 1)"
proof -
  define n where "n = \<lfloor>a\<rfloor>"
  have n: "0 < n" using assms by (simp add: n_def)
  have b1: "1 \<le> bitlen n" using n by (simp add: bitlen_alt_def)
  from bitlen_bounds[OF n] have lo: "2 ^ nat (bitlen n - 1) \<le> n" and hi: "n < 2 ^ nat (bitlen n)"
    by auto
  have e: "ilog2 a = bitlen n - 1" using assms by (simp add: ilog2_def n_def)
  have "(2::rat) powi (bitlen n - 1) = of_int (2 ^ nat (bitlen n - 1))"
    using b1 by (simp add: pow2_powi_nat)
  also have "\<dots> \<le> of_int n" using lo by (simp only: of_int_le_iff)
  also have "\<dots> \<le> a" by (simp add: n_def)
  finally have A: "2 powi ilog2 a \<le> a" by (simp add: e)
  have "n + 1 \<le> 2 ^ nat (bitlen n)" using hi by simp
  then have "(of_int (n + 1) :: rat) \<le> of_int (2 ^ nat (bitlen n))" by (simp only: of_int_le_iff)
  moreover have "a < of_int (n + 1)" using floor_correct[of a] by (simp add: n_def)
  moreover have "(2::rat) powi (bitlen n - 1 + 1) = of_int (2 ^ nat (bitlen n))"
    using b1 by (simp add: pow2_powi_nat)
  ultimately have B: "a < 2 powi (ilog2 a + 1)" by (simp add: e)
  from A B show ?thesis ..
qed

lemma ilog2_lt1:
  assumes "0 < a" "a < 1"
  shows "2 powi ilog2 a \<le> a \<and> a < 2 powi (ilog2 a + 1)"
proof -
  define m where "m = \<lceil>1 / a\<rceil> - 1"
  have inv: "1 < 1 / a" using assms by simp
  then have "1 < \<lceil>1 / a\<rceil>" by (simp add: less_ceiling_iff)
  then have m: "0 < m" by (simp add: m_def)
  have b1: "1 \<le> bitlen m" using m by (simp add: bitlen_alt_def)
  from bitlen_bounds[OF m] have lo: "2 ^ nat (bitlen m - 1) \<le> m" and hi: "m < 2 ^ nat (bitlen m)"
    by auto
  have e: "ilog2 a = - bitlen m" using assms by (simp add: ilog2_def m_def)
  have m_lt: "of_int m < 1 / a" using ceiling_correct[of "1 / a"] by (simp add: m_def)
  have m_ge: "1 / a \<le> of_int (m + 1)" by (simp add: m_def)
  have "m + 1 \<le> 2 ^ nat (bitlen m)" using hi by simp
  then have "(of_int (m + 1) :: rat) \<le> of_int (2 ^ nat (bitlen m))" by (simp only: of_int_le_iff)
  with m_ge have "1 / a \<le> 2 ^ nat (bitlen m)" by simp
  then have "1 / 2 ^ nat (bitlen m) \<le> a" using assms(1)
    by (simp add: field_simps)
  moreover have "(2::rat) powi (- bitlen m) = 1 / 2 ^ nat (bitlen m)"
    using b1 by (simp add: power_int_def field_simps)
  ultimately have A: "2 powi ilog2 a \<le> a" by (simp add: e)
  have "(of_int (2 ^ nat (bitlen m - 1)) :: rat) \<le> of_int m" using lo by (simp only: of_int_le_iff)
  then have "(2::rat) ^ nat (bitlen m - 1) \<le> of_int m" by simp
  with m_lt have "2 ^ nat (bitlen m - 1) < 1 / a" by linarith
  then have "a < 1 / 2 ^ nat (bitlen m - 1)" using assms(1)
    by (simp add: field_simps)
  moreover have "(2::rat) powi (- bitlen m + 1) = 1 / 2 ^ nat (bitlen m - 1)"
    using b1 by (simp add: power_int_def field_simps nat_diff_distrib)
  ultimately have B: "a < 2 powi (ilog2 a + 1)" by (simp add: e)
  from A B show ?thesis ..
qed

lemma ilog2_bounds:
  assumes "0 < a"
  shows "2 powi ilog2 a \<le> a" "a < 2 powi (ilog2 a + 1)"
  using assms ilog2_ge1[of a] ilog2_lt1[of a] by (cases "1 \<le> a"; simp)+

lemma rne_lower: "\<lfloor>x\<rfloor> \<le> rne x"
  by (simp add: rne_def Let_def)

lemma rne_upper: "rne x \<le> \<lceil>x\<rceil>"
proof -
  have "\<lfloor>x\<rfloor> \<le> \<lceil>x\<rceil>" by (simp add: floor_le_ceiling)
  moreover have "x - of_int \<lfloor>x\<rfloor> \<noteq> 0 \<Longrightarrow> \<lfloor>x\<rfloor> + 1 \<le> \<lceil>x\<rceil>"
    by (metis ceiling_altdef eq_iff_diff_eq_0 order_refl)
  ultimately show ?thesis
    by (auto simp add: rne_def Let_def)
qed

lemma rne_abs_le:
  assumes "\<bar>x\<bar> \<le> of_int N"
  shows "\<bar>rne x\<bar> \<le> N"
proof -
  have "x \<le> of_int N" "- of_int N \<le> x" using assms by linarith+
  then have "\<lceil>x\<rceil> \<le> N" "- N \<le> \<lfloor>x\<rfloor>"
    by (simp_all add: ceiling_le_iff le_floor_iff)
  with rne_lower[of x] rne_upper[of x] show ?thesis by linarith
qed

lemma powi_less_exp: "(2::rat) powi a < 2 powi b \<Longrightarrow> a < b"
proof (rule ccontr)
  assume h: "(2::rat) powi a < 2 powi b" and "\<not> a < b"
  then have "b \<le> a" by simp
  then have "(2::rat) powi b \<le> 2 powi a" by (intro power_int_increasing) simp_all
  with h show False by simp
qed

lemma powi_split: "(2::rat) powi (a + b) = 2 powi a * 2 powi b"
  by (rule power_int_add) simp

lemma powi_53: "(2::rat) powi (e + 1) = 2 ^ 53 * 2 powi (e - 52)"
  using powi_split[of 53 "e - 52"] by (simp add: algebra_simps)

lemma fl_exact:
  assumes q: "q = of_int m * 2 powi j" and m: "\<bar>m\<bar> < 2 ^ 53" and j: "- 1074 \<le> j"
    and ov: "\<bar>q\<bar> < 2 powi 1024"
  shows "fl q = Fin q"
proof (cases "q = 0")
  case True
  then show ?thesis by (simp add: fl_def)
next
  case False
  define e where "e = max (ilog2 \<bar>q\<bar>) (- 1022)"
  define u :: rat where "u = 2 powi (e - 52)"
  have pos: "0 < \<bar>q\<bar>" using False by simp
  have "(of_int \<bar>m\<bar> :: rat) < of_int (2 ^ 53)" using m by (simp only: of_int_less_iff)
  then have m': "\<bar>of_int m :: rat\<bar> < 2 ^ 53" by simp
  have "\<bar>q\<bar> = \<bar>of_int m\<bar> * 2 powi j" by (simp add: q abs_mult)
  also have "\<dots> < 2 ^ 53 * 2 powi j" using m' by (simp add: power_int_def)
  also have "\<dots> = 2 powi (53 + j)" using powi_split[of 53 j] by simp
  finally have "2 powi ilog2 \<bar>q\<bar> < (2::rat) powi (53 + j)"
    using ilog2_bounds(1)[OF pos] by simp
  then have "ilog2 \<bar>q\<bar> < 53 + j" by (rule powi_less_exp)
  then have k: "0 \<le> 52 + j - e" using j by (simp add: e_def)
  have upos: "0 < u" by (simp add: u_def)
  have "(2::rat) powi j = 2 powi (52 + j - e) * u"
    using powi_split[of "52 + j - e" "e - 52"] by (simp add: u_def)
  then have "2 powi j / u = (2::rat) powi (52 + j - e)"
    using upos by simp
  also have "\<dots> = of_int (2 ^ nat (52 + j - e))" using k by (simp add: pow2_powi_nat)
  finally have d: "2 powi j / u = (of_int (2 ^ nat (52 + j - e)) :: rat)" .
  have "q / u = of_int m * (2 powi j / u)" by (simp add: q)
  also have "\<dots> = of_int (m * 2 ^ nat (52 + j - e))" by (simp only: d of_int_mult)
  finally have "q / u = of_int (m * 2 ^ nat (52 + j - e))" .
  then have "of_int (rne (q / u)) * u = q" using upos by (simp only: rne_of_int) (simp add: field_simps)
  then show ?thesis using False ov
    by (simp add: fl_def Let_def e_def[symmetric] u_def[symmetric])
qed

lemma fl_bound:
  assumes lt: "\<bar>q\<bar> < 2 powi n" and n1: "- 1021 \<le> n" and n2: "n \<le> 1023"
  shows "\<exists>c. fl q = Fin c \<and> \<bar>c\<bar> \<le> 2 powi n"
proof (cases "q = 0")
  case True
  then show ?thesis by (simp add: fl_def)
next
  case False
  define e where "e = max (ilog2 \<bar>q\<bar>) (- 1022)"
  define u :: rat where "u = 2 powi (e - 52)"
  define r :: rat where "r = of_int (rne (q / u)) * u"
  have pos: "0 < \<bar>q\<bar>" using False by simp
  have "2 powi ilog2 \<bar>q\<bar> < (2::rat) powi n"
    using ilog2_bounds(1)[OF pos] lt by simp
  then have "ilog2 \<bar>q\<bar> < n" by (rule powi_less_exp)
  then have en: "e + 1 \<le> n" using n1 by (simp add: e_def)
  have upos: "0 < u" by (simp add: u_def)
  have "\<bar>q\<bar> < 2 powi (ilog2 \<bar>q\<bar> + 1)" using ilog2_bounds(2)[OF pos] .
  also have "\<dots> \<le> 2 powi (e + 1)" by (intro power_int_increasing) (simp_all add: e_def)
  also have "\<dots> = 2 ^ 53 * u" by (simp only: u_def powi_53)
  finally have "\<bar>q / u\<bar> \<le> of_int (2 ^ 53)" using upos by (simp add: field_simps abs_if split: if_splits)
  then have "\<bar>rne (q / u)\<bar> \<le> 2 ^ 53" by (rule rne_abs_le)
  then have "(of_int \<bar>rne (q / u)\<bar> :: rat) \<le> of_int (2 ^ 53)" by (simp only: of_int_le_iff)
  then have "\<bar>r\<bar> \<le> 2 ^ 53 * u" using upos by (simp add: r_def abs_mult)
  also have "2 ^ 53 * u = 2 powi (e + 1)" by (simp only: u_def powi_53)
  also have "\<dots> \<le> 2 powi n" using en by (intro power_int_increasing) simp_all
  finally have rb: "\<bar>r\<bar> \<le> 2 powi n" .
  have "(2::rat) powi n < 2 powi 1024" using n2 by (intro power_int_strict_increasing) simp_all
  with rb have "\<not> 2 powi 1024 \<le> \<bar>r\<bar>" by linarith
  then have "fl q = Fin r" using False
    by (simp add: fl_def Let_def e_def[symmetric] u_def[symmetric] r_def[symmetric])
  with rb show ?thesis by blast
qed

lemma floor_rat_numeral: "\<lfloor>(numeral a :: rat) / numeral b\<rfloor> = numeral a div numeral b"
  by (metis floor_divide_of_int_eq of_int_numeral)

lemma floor_rat_minus_numeral:
  "\<lfloor>- ((numeral a :: rat) / numeral b)\<rfloor> = - numeral a div numeral b"
  by (metis floor_divide_of_int_eq of_int_numeral of_int_minus minus_divide_left)

lemma ilog2_unique:
  assumes "2 powi e \<le> a" "a < 2 powi (e + 1)"
  shows "ilog2 a = e"
proof -
  have "(0::rat) < 2 powi e" by simp
  with assms(1) have pos: "0 < a" by linarith
  have "(2::rat) powi ilog2 a < 2 powi (e + 1)" "(2::rat) powi e < 2 powi (ilog2 a + 1)"
    using ilog2_bounds[OF pos] assms by linarith+
  then have "ilog2 a < e + 1" "e < ilog2 a + 1" by (simp_all only: powi_less_exp)
  then show ?thesis by simp
qed

lemma fl_normal:
  assumes lo: "2 powi e \<le> \<bar>q\<bar>" and hi: "\<bar>q\<bar> < 2 powi (e + 1)"
    and e1: "- 1022 \<le> e" and e2: "e \<le> 1022"
  shows "fl q = Fin (of_int (rne (q / 2 powi (e - 52))) * 2 powi (e - 52))"
proof -
  have q0: "q \<noteq> 0"
  proof
    assume "q = 0"
    with lo have "(2::rat) powi e \<le> 0" by simp
    moreover have "(0::rat) < 2 powi e" by simp
    ultimately show False by linarith
  qed
  have il: "ilog2 \<bar>q\<bar> = e" using lo hi by (rule ilog2_unique)
  from fl_bound[OF hi] e1 e2 obtain c where c: "fl q = Fin c" by auto
  show ?thesis
    using c q0 e1 by (simp add: fl_def il Let_def max_def split: if_splits)
qed

lemma fl_zero: "fl 0 = Fin 0"
  by (simp add: fl_def)

lemmas eval_simps = rne_def Let_def floor_rat_numeral floor_rat_minus_numeral power_int_minus fl_zero

lemma small_no_overflow: "\<bar>x\<bar> \<le> 2 ^ 60 \<Longrightarrow> \<bar>x\<bar> < (2::rat) powi 1024"
proof -
  assume "\<bar>x\<bar> \<le> 2 ^ 60"
  then have "\<bar>x\<bar> \<le> 2 powi 60" by simp
  also have "(2::rat) powi 60 < 2 powi 1024" by (intro power_int_strict_increasing) simp_all
  finally show ?thesis .
qed

lemma representable_int: "\<bar>i\<bar> < 2 ^ 53 \<Longrightarrow> representable (of_int i)"
proof -
  assume a: "\<bar>i\<bar> < 2 ^ 53"
  then have "(of_int \<bar>i\<bar> :: rat) < of_int (2 ^ 53)" by (simp only: of_int_less_iff)
  then have "\<bar>of_int i :: rat\<bar> < 2 powi 1024" by (intro small_no_overflow) simp
  with a show ?thesis
    unfolding representable_def by (intro fl_exact[where m = i and j = 0]) simp_all
qed

lemma half_extents: "ndiv originalWidth (Fin 2) = Fin 400" "ndiv originalHeight (Fin 2) = Fin 300"
  by (simp_all add: originalWidth_def originalHeight_def fl_normal[where e = 8] eval_simps)

lemma half_cell: "ndiv gridSize (Fin 2) = Fin 20"
  by (simp add: gridSize_def fl_normal[where e = 4] eval_simps)

lemma roundTrip_when_exact:
  assumes "representable a" "representable b"
    and "representable (a - 400)" "representable (b - 300)"
  shows "roundTrip (Fin a) (Fin b) = (Fin a, Fin b)"
  using assms
  by (simp add: roundTrip_def gameToWorldCoords_def worldToGameCoords_def half_extents
      nsub_def representable_def)

lemma snap_cell:
  assumes k: "\<bar>k\<bar> \<le> 2 ^ 48"
  shows "nadd (nmul (Fin (of_int k)) gridSize) (ndiv gridSize (Fin 2)) = Fin (of_int (40 * k + 20))"
proof -
  have kr: "\<bar>of_int k :: rat\<bar> \<le> 2 ^ 48"
  proof -
    have "(of_int \<bar>k\<bar> :: rat) \<le> of_int (2 ^ 48)" using k by (simp only: of_int_le_iff)
    then show ?thesis by simp
  qed
  have "fl (of_int k * 40) = Fin (of_int k * 40)"
  proof (rule fl_exact[where m = "5 * k" and j = 3])
    show "(of_int k :: rat) * 40 = of_int (5 * k) * 2 powi 3" by simp
    show "\<bar>5 * k\<bar> < 2 ^ 53" using k by simp
    show "\<bar>of_int k * 40 :: rat\<bar> < 2 powi 1024" using kr by (intro small_no_overflow) (simp add: abs_mult)
  qed simp
  moreover have "fl (of_int k * 40 + 20) = Fin (of_int k * 40 + 20)"
  proof (rule fl_exact[where m = "10 * k + 5" and j = 2])
    show "(of_int k :: rat) * 40 + 20 = of_int (10 * k + 5) * 2 powi 2" by simp
    show "\<bar>10 * k + 5\<bar> < 2 ^ 53" using k by simp
    have "\<bar>of_int k * 40 + 20 :: rat\<bar> \<le> \<bar>of_int k\<bar> * 40 + 20" by (simp add: abs_if)
    then show "\<bar>of_int k * 40 + 20 :: rat\<bar> < 2 powi 1024" using kr by (intro small_no_overflow) simp
  qed simp
  ultimately show ?thesis
    by (simp add: half_cell) (simp add: gridSize_def algebra_simps)
qed

lemma snap_value:
  assumes a: "\<bar>a\<bar> \<le> 2 ^ 53"
  shows "\<exists>k. \<bar>k\<bar> \<le> 2 ^ 48 \<and> snap (Fin a) = Fin (of_int (40 * k + 20))"
proof -
  have "\<bar>a / 40\<bar> < 2 powi 48" using a by (simp add: abs_if split: if_splits)
  from fl_bound[OF this] obtain c where c: "fl (a / 40) = Fin c" "\<bar>c\<bar> \<le> 2 powi 48"
    by auto
  define k where "k = \<lfloor>c\<rfloor>"
  have "c \<le> of_int (2 ^ 48)" "of_int (- (2 ^ 48)) \<le> c" using c(2) by (simp_all add: abs_if split: if_splits)
  then have "k \<le> 2 ^ 48" "- (2 ^ 48) \<le> k"
    unfolding k_def by (simp_all only: floor_mono[THEN order_trans] le_floor_iff floor_le_iff) 
  then have k: "\<bar>k\<bar> \<le> 2 ^ 48" by simp
  have "snap (Fin a) = nadd (nmul (Fin (of_int k)) gridSize) (ndiv gridSize (Fin 2))"
    by (simp add: snap_def c(1) k_def) (simp add: gridSize_def c(1))
  with snap_cell[OF k] k show ?thesis by (intro exI[of _ k]) simp
qed

lemma snap_snapped:
  assumes k: "\<bar>k\<bar> \<le> 2 ^ 48"
  shows "snap (Fin (of_int (40 * k + 20))) = Fin (of_int (40 * k + 20))"
proof -
  have "fl (of_int (40 * k + 20) / 40) = Fin (of_int (40 * k + 20) / 40)"
  proof (rule fl_exact[where m = "2 * k + 1" and j = "- 1"])
    show "(of_int (40 * k + 20) :: rat) / 40 = of_int (2 * k + 1) * 2 powi (- 1)"
      by (simp add: power_int_minus field_simps)
    show "\<bar>2 * k + 1\<bar> < 2 ^ 53" using k by simp
    have "(of_int \<bar>k\<bar> :: rat) \<le> of_int (2 ^ 48)" using k by (simp only: of_int_le_iff)
    then have "\<bar>of_int k :: rat\<bar> \<le> 2 ^ 48" by simp
    then have "\<bar>of_int k + 1 / 2 :: rat\<bar> \<le> 2 ^ 60" by (simp add: abs_if split: if_splits)
    moreover have "(of_int (40 * k + 20) :: rat) / 40 = of_int k + 1 / 2" by simp
    ultimately show "\<bar>of_int (40 * k + 20) / 40 :: rat\<bar> < 2 powi 1024"
      by (simp only: small_no_overflow)
  qed simp
  moreover have "\<lfloor>(of_int (40 * k + 20) :: rat) / 40\<rfloor> = k"
    by (simp add: floor_eq_iff field_simps)
  ultimately have "snap (Fin (of_int (40 * k + 20)))
      = nadd (nmul (Fin (of_int k)) gridSize) (ndiv gridSize (Fin 2))"
    by (simp add: snap_def) (simp add: gridSize_def)
  with snap_cell[OF k] show ?thesis by simp
qed

lemma roundTrip_int:
  assumes "\<bar>i\<bar> \<le> 2 ^ 52" "\<bar>j\<bar> \<le> 2 ^ 52"
  shows "roundTrip (Fin (of_int i)) (Fin (of_int j)) = (Fin (of_int i), Fin (of_int j))"
proof -
  have "representable (of_int i)" "representable (of_int j)"
    using assms by (simp_all add: representable_int)
  moreover have "\<bar>i - 400\<bar> < 2 ^ 53" "\<bar>j - 300\<bar> < 2 ^ 53"
    using assms by (simp_all add: abs_if split: if_splits)
  then have "representable (of_int (i - 400))" "representable (of_int (j - 300))"
    by (simp_all only: representable_int)
  ultimately show ?thesis
    using roundTrip_when_exact[of "of_int i" "of_int j"] by simp
qed

section \<open>The coordinate laws\<close>

text \<open>
  C2, as stated, fails: the double nearest to 0.1 is a finite game coordinate, and
  \<^verbatim>\<open>(0.1 - 400) + 400\<close> is 0.10000000000002274, since the subtraction rounds.
\<close>

theorem roundTrip_counterexample:
  "finite_number (Fin (3602879701896397 / 36028797018963968)) \<and> finite_number (Fin 0) \<and>
   roundTrip (Fin (3602879701896397 / 36028797018963968)) (Fin 0)
     = (Fin (879609302221 / 8796093022208), Fin 0) \<and>
   roundTrip (Fin (3602879701896397 / 36028797018963968)) (Fin 0)
     \<noteq> (Fin (3602879701896397 / 36028797018963968), Fin 0)"
  by (simp add: roundTrip_def gameToWorldCoords_def worldToGameCoords_def half_extents nsub_def
      representable_def fl_normal[where e = "- 4"] fl_normal[where e = 8] eval_simps)

text \<open>
  C2, amended: for all finite game coordinates \<open>(x, y)\<close> for which \<open>x - 400\<close> and
  \<open>y - 300\<close> are doubles too (so that \<^verbatim>\<open>gameToWorldCoords\<close> does not round),
  \<^verbatim>\<open>worldToGameCoords\<close> applied to the result of \<^verbatim>\<open>gameToWorldCoords\<close> returns exactly
  \<open>(x, y)\<close>. By \<open>roundTrip_int\<close> this covers every pair of integers of magnitude at
  most \<open>2 ^ 52\<close>.
\<close>

theorem roundTrip_exact:
  assumes "finite_number (Fin a)" and "finite_number (Fin b)"
    and "representable (a - 400)" and "representable (b - 300)"
  shows "roundTrip (Fin a) (Fin b) = (Fin a, Fin b)"
  using assms by (simp add: roundTrip_when_exact)

theorem roundTrip_exact_witness:
  "finite_number (Fin 120) \<and> finite_number (Fin 80) \<and> representable (120 - 400) \<and>
   representable (80 - 300) \<and> roundTrip (Fin 120) (Fin 80) = (Fin 120, Fin 80)"
proof -
  have h: "finite_number (Fin 120)" "finite_number (Fin 80)"
    "representable (120 - 400)" "representable (80 - 300)"
    by (simp_all add: representable_def fl_normal[where e = 6] fl_normal[where e = 7]
        fl_normal[where e = 8] eval_simps)
  from h roundTrip_exact[OF h] show ?thesis by simp
qed

text \<open>
  The snap is exact only while the cell centres are doubles. Far beyond any ground plane
  this ends: at \<open>2 ^ 57 + 64\<close> the product and the sum round to multiples of 32.
\<close>

lemma snap_far_away:
  "finite_number (Fin (2 ^ 57 + 64)) \<and>
   snap (Fin (2 ^ 57 + 64)) = Fin (2 ^ 57 + 96) \<and>
   snap (snap (Fin (2 ^ 57 + 64))) = Fin (2 ^ 57 + 128) \<and>
   snap (snap (Fin (2 ^ 57 + 64))) \<noteq> snap (Fin (2 ^ 57 + 64))"
  by (simp add: snap_def gridSize_def representable_def fl_normal[where e = 51]
      fl_normal[where e = 57] fl_normal[where e = 4] eval_simps)

text \<open>
  C3: the grid snap of \<^verbatim>\<open>screenToWorld\<close> is idempotent, \<open>snap (snap p) = snap p\<close>, for
  every coordinate \<open>p\<close> it is applied to. These are the coordinates of a point of the 800
  by 600 ground plane, of magnitude at most 400; the theorem covers every magnitude up to
  \<open>2 ^ 53\<close>.
\<close>

theorem snap_idempotent: "\<bar>a\<bar> \<le> 2 ^ 53 \<Longrightarrow> snap (snap (Fin a)) = snap (Fin a)"
  using snap_value[of a] snap_snapped by auto

theorem snap_idempotent_witness:
  "\<bar>- 280 :: rat\<bar> \<le> 2 ^ 53 \<and> snap (Fin (- 280)) = Fin (- 260) \<and>
   snap (snap (Fin (- 280))) = snap (Fin (- 280))"
proof -
  have h: "\<bar>- 280 :: rat\<bar> \<le> 2 ^ 53" by simp
  have v: "snap (Fin (- 280)) = Fin (- 260)"
    by (simp add: snap_def gridSize_def fl_normal[where e = 2] fl_normal[where e = 8]
        fl_normal[where e = 4] eval_simps)
  from h v snap_idempotent[OF h] show ?thesis by simp
qed

section \<open>The examples\<close>

lemmas init_defs = ready_def initialize_def testBrowser_def new_ThreeJSManager_def createGroundPlane_def
  createTowerPreviewMeshes_def setupEventListeners_def handleResize_def light_def Let_def

lemma ready_nextId: "nextId ready = 23"
  by (simp add: init_defs)

lemma ready_scene: "scene ready = [0, 1, 2, 3, 7, 10, 13, 16, 17]"
  by (simp add: init_defs)

lemma ready_tracked: "sceneObjects ready = []" "disposed ready = []" "forwarded ready = []"
  by (simp_all add: init_defs)

lemma ready_ground: "groundPlane ready \<noteq> None"
  by (simp add: init_defs)


section \<open>Clearing\<close>

lemma clearLoop_fields:
  "sceneObjects (clearLoop objs s) = sceneObjects s"
  "disposed (clearLoop objs s) = disposed s @ concat (map disposeOf objs)"
  "scene (clearLoop objs s) = fold remove1 (map oid objs) (scene s)"
  "textContext (clearLoop objs s) = textContext s"
  by (induction objs arbitrary: s) simp_all

lemma clear_sceneObjects: "sceneObjects (clear s) = []"
  by (simp add: clear_def Let_def split: option.splits)

lemma clear_disposed: "disposed (clear s) = disposed s @ concat (map disposeOf (sceneObjects s))"
  by (simp add: clear_def Let_def clearLoop_fields split: option.splits)

lemma clear_scene: "scene (clear s) = fold remove1 (map oid (sceneObjects s)) (scene s)"
  by (simp add: clear_def Let_def clearLoop_fields split: option.splits)

lemma clear_disposes_meshes:
  assumes "obj \<in> set (sceneObjects s)" "kind obj = MeshObj"
  shows "set (resources obj) \<subseteq> set (disposed (clear s))"
  using assms by (auto simp add: clear_disposed disposeOf_def)

lemma clear_skips_lines:
  assumes "\<forall>obj \<in> set (sceneObjects s). kind obj = LineObj"
  shows "disposed (clear s) = disposed s"
  using assms by (simp add: clear_disposed disposeOf_def)

lemma draws_then_clear:
  "sceneObjects (clear (draws cs s)) = [] \<and>
   (\<forall>obj \<in> set (sceneObjects (draws cs s)).
      kind obj = MeshObj \<longrightarrow> set (resources obj) \<subseteq> set (disposed (clear (draws cs s))))"
  by (simp add: clear_sceneObjects clear_disposes_meshes)

lemma clear_disposes_rect:
  "map kind (sceneObjects (drawRect (Fin 0) (Fin 0) (Fin 10) (Fin 10) (Fin 255) (Fin 255) (Fin 255) ready)) = [MeshObj] \<and>
   disposed (clear (drawRect (Fin 0) (Fin 0) (Fin 10) (Fin 10) (Fin 255) (Fin 255) (Fin 255) ready)) = [23, 24]"
  by (simp add: drawRect_def addTracked_def clear_disposed disposeOf_def resources_def ready_tracked ready_nextId
      Let_def split: prod.splits)

text \<open>
  C1 fails on the code: after \<^verbatim>\<open>drawLine(0, 0, 10, 10, 1, 255, 255, 255)\<close> and
  \<^verbatim>\<open>clear()\<close> the tracked collection is empty, but the geometry (handle 23) and the
  material (handle 24) of the line have not been disposed, since the line is not a mesh.
  A rectangle drawn instead is disposed (\<open>clear_disposes_rect\<close>).
\<close>

theorem clear_leaks_line:
  "map kind (sceneObjects (drawLine (Fin 0) (Fin 0) (Fin 10) (Fin 10) (Fin 1) (Fin 255) (Fin 255) (Fin 255) ready)) = [LineObj] \<and>
   map resources (sceneObjects (drawLine (Fin 0) (Fin 0) (Fin 10) (Fin 10) (Fin 1) (Fin 255) (Fin 255) (Fin 255) ready)) = [[23, 24]] \<and>
   sceneObjects (clear (drawLine (Fin 0) (Fin 0) (Fin 10) (Fin 10) (Fin 1) (Fin 255) (Fin 255) (Fin 255) ready)) = [] \<and>
   disposed (clear (drawLine (Fin 0) (Fin 0) (Fin 10) (Fin 10) (Fin 1) (Fin 255) (Fin 255) (Fin 255) ready)) = []"
  by (simp add: drawLine_def addTracked_def clear_def disposeOf_def resources_def ready_tracked ready_nextId
      Let_def split: prod.splits option.splits)

section \<open>Comparisons\<close>

lemma nle_not_nlt: "nle a b \<Longrightarrow> \<not> nlt b a"
  by (cases a; cases b) simp_all

section \<open>The preview\<close>

lemma hide_simps [simp]: "hide None = None" "hide (Some m) = Some (m\<lparr>visible := False\<rparr>)"
  by (simp_all add: hide_def)

lemma ready_previews:
  "\<exists>m. towerPreviewMesh ready = Some m \<and> \<not> visible m"
  "\<exists>m. rangePreviewMesh ready = Some m \<and> \<not> visible m"
  "\<exists>m. invalidPlacementMesh ready = Some m \<and> \<not> visible m"
  by (simp_all add: init_defs)

text \<open>
  C4: whatever the state of the three preview primitives, \<^verbatim>\<open>drawTowerPreview\<close> with
  \<open>x < 0\<close> or \<open>y < 0\<close> makes all three invisible and changes nothing else about them,
  nor anything else in the manager.
\<close>

theorem drawTowerPreview_hides:
  assumes "nlt x (Fin 0) \<or> nlt y (Fin 0)"
  shows "towerPreviewMesh (drawTowerPreview x y canPlace range' s)
           = map_option (\<lambda>m. m\<lparr>visible := False\<rparr>) (towerPreviewMesh s) \<and>
         rangePreviewMesh (drawTowerPreview x y canPlace range' s)
           = map_option (\<lambda>m. m\<lparr>visible := False\<rparr>) (rangePreviewMesh s) \<and>
         invalidPlacementMesh (drawTowerPreview x y canPlace range' s)
           = map_option (\<lambda>m. m\<lparr>visible := False\<rparr>) (invalidPlacementMesh s) \<and>
         (drawTowerPreview x y canPlace range' s)
           \<lparr>towerPreviewMesh := towerPreviewMesh s, rangePreviewMesh := rangePreviewMesh s,
            invalidPlacementMesh := invalidPlacementMesh s\<rparr> = s"
  using assms by (simp add: drawTowerPreview_def hide_def)

theorem drawTowerPreview_hides_witness:
  "(nlt (Fin (- 1)) (Fin 0) \<or> nlt (Fin (- 1)) (Fin 0)) \<and>
   (\<exists>m. towerPreviewMesh (drawTowerPreview (Fin 100) (Fin 100) True (Fin 50) ready) = Some m
        \<and> visible m) \<and>
   towerPreviewMesh (drawTowerPreview (Fin (- 1)) (Fin (- 1)) True (Fin 50)
       (drawTowerPreview (Fin 100) (Fin 100) True (Fin 50) ready))
     = map_option (\<lambda>m. m\<lparr>visible := False\<rparr>)
         (towerPreviewMesh (drawTowerPreview (Fin 100) (Fin 100) True (Fin 50) ready)) \<and>
   rangePreviewMesh (drawTowerPreview (Fin (- 1)) (Fin (- 1)) True (Fin 50)
       (drawTowerPreview (Fin 100) (Fin 100) True (Fin 50) ready))
     = map_option (\<lambda>m. m\<lparr>visible := False\<rparr>)
         (rangePreviewMesh (drawTowerPreview (Fin 100) (Fin 100) True (Fin 50) ready)) \<and>
   invalidPlacementMesh (drawTowerPreview (Fin (- 1)) (Fin (- 1)) True (Fin 50)
       (drawTowerPreview (Fin 100) (Fin 100) True (Fin 50) ready))
     = map_option (\<lambda>m. m\<lparr>visible := False\<rparr>)
         (invalidPlacementMesh (drawTowerPreview (Fin 100) (Fin 100) True (Fin 50) ready))"
proof -
  have h: "nlt (Fin (- 1)) (Fin 0) \<or> nlt (Fin (- 1)) (Fin 0)" by simp
  have v: "\<exists>m. towerPreviewMesh (drawTowerPreview (Fin 100) (Fin 100) True (Fin 50) ready) = Some m
        \<and> visible m"
    using ready_previews(1) by (auto simp add: drawTowerPreview_def Let_def split: prod.splits)
  from h v drawTowerPreview_hides[OF h, of True "Fin 50"
      "drawTowerPreview (Fin 100) (Fin 100) True (Fin 50) ready"]
  show ?thesis by simp
qed

text \<open>
  C10: in a \<^verbatim>\<open>drawTowerPreview\<close> call with non-negative coordinates and
  \<open>canPlace = true\<close>, the range disc ends up visible exactly when \<open>range > 0\<close>; with
  \<open>range \<le> 0\<close> the placement cube is shown in the accent colour 0x00ffee and the range
  disc is hidden.
\<close>

theorem drawTowerPreview_range:
  assumes "nle (Fin 0) x" and "nle (Fin 0) y"
  shows "(\<forall>m. rangePreviewMesh (drawTowerPreview x y True range' s) = Some m
            \<longrightarrow> (visible m \<longleftrightarrow> nlt (Fin 0) range')) \<and>
         (nle range' (Fin 0) \<longrightarrow>
            (\<forall>c. towerPreviewMesh (drawTowerPreview x y True range' s) = Some c
                \<longrightarrow> visible c \<and> colour c = Hex 65518) \<and>
            (\<forall>m. rangePreviewMesh (drawTowerPreview x y True range' s) = Some m
                \<longrightarrow> \<not> visible m)) \<and>
         (towerPreviewMesh (drawTowerPreview x y True range' s) = None
            \<longleftrightarrow> towerPreviewMesh s = None) \<and>
         (rangePreviewMesh (drawTowerPreview x y True range' s) = None
            \<longleftrightarrow> rangePreviewMesh s = None)"
  using nle_not_nlt[OF assms(1)] nle_not_nlt[OF assms(2)] nle_not_nlt[of range' "Fin 0"]
  by (auto simp add: drawTowerPreview_def hide_def Let_def split: prod.splits)

theorem drawTowerPreview_range_witness:
  "nle (Fin 0) (Fin 100) \<and> nle (Fin 0) (Fin 100) \<and> nle (Fin 0) (Fin 0) \<and>
   (\<exists>c. towerPreviewMesh (drawTowerPreview (Fin 100) (Fin 100) True (Fin 0) ready) = Some c \<and>
        visible c \<and> colour c = Hex 65518) \<and>
   (\<exists>m. rangePreviewMesh (drawTowerPreview (Fin 100) (Fin 100) True (Fin 0) ready) = Some m \<and>
        \<not> visible m \<and> \<not> nlt (Fin 0) (Fin 0))"
proof -
  have h: "nle (Fin 0) (Fin 100)" "nle (Fin 0) (Fin 0)" by simp_all
  obtain c where c: "towerPreviewMesh (drawTowerPreview (Fin 100) (Fin 100) True (Fin 0) ready) = Some c"
    using ready_previews(1) drawTowerPreview_range[OF h(1) h(1), of "Fin 0" ready] by auto
  obtain m where m: "rangePreviewMesh (drawTowerPreview (Fin 100) (Fin 100) True (Fin 0) ready) = Some m"
    using ready_previews(2) drawTowerPreview_range[OF h(1) h(1), of "Fin 0" ready] by auto
  from h c m drawTowerPreview_range[OF h(1) h(1), of "Fin 0" ready]
  show ?thesis by simp
qed

section \<open>The circle filter\<close>

text \<open>
  C5: \<^verbatim>\<open>drawCircle\<close> adds nothing (it leaves the manager as it is) for an unfilled circle
  of radius below 15, for a circle with \<open>y < 20\<close> and radius below 10, and for a radius
  below 5; \<^verbatim>\<open>drawCircle(x, 18, 8, r, g, b, false)\<close> adds nothing, and
  \<^verbatim>\<open>drawCircle(x, 100, 20, r, g, b, true)\<close> adds exactly one mesh to the scene and to the
  tracked collection.
\<close>

theorem drawCircle_filter:
  "((\<not> fill \<and> nlt radius (Fin 15)) \<or> (nlt y (Fin 20) \<and> nlt radius (Fin 10)) \<or> nlt radius (Fin 5)
      \<longrightarrow> drawCircle x y radius r g b fill s = s) \<and>
   drawCircle x (Fin 18) (Fin 8) r g b False s = s \<and>
   (\<exists>mesh. kind mesh = MeshObj \<and>
      sceneObjects (drawCircle x (Fin 100) (Fin 20) r g b True s) = sceneObjects s @ [mesh] \<and>
      scene (drawCircle x (Fin 100) (Fin 20) r g b True s) = scene s @ [oid mesh])"
  by (simp add: drawCircle_def addTracked_def Let_def split: prod.splits)

theorem drawCircle_filter_witness:
  "((\<not> True \<and> nlt (Fin 9) (Fin 15)) \<or> (nlt (Fin 10) (Fin 20) \<and> nlt (Fin 9) (Fin 10))
      \<or> nlt (Fin 9) (Fin 5)) \<and>
   drawCircle (Fin 50) (Fin 10) (Fin 9) (Fin 255) (Fin 0) (Fin 0) True ready = ready \<and>
   drawCircle (Fin 50) (Fin 18) (Fin 8) (Fin 255) (Fin 0) (Fin 0) False ready = ready \<and>
   length (sceneObjects (drawCircle (Fin 50) (Fin 100) (Fin 20) (Fin 255) (Fin 0) (Fin 0) True ready)) = 1"
proof -
  have h: "(\<not> True \<and> nlt (Fin 9) (Fin 15)) \<or> (nlt (Fin 10) (Fin 20) \<and> nlt (Fin 9) (Fin 10))
      \<or> nlt (Fin 9) (Fin 5)" by simp
  have "drawCircle (Fin 50) (Fin 10) (Fin 9) (Fin 255) (Fin 0) (Fin 0) True ready = ready"
    using h drawCircle_filter[of True "Fin 9" "Fin 10" "Fin 50" "Fin 255" "Fin 0" "Fin 0" ready]
    by blast
  moreover have "drawCircle (Fin 50) (Fin 18) (Fin 8) (Fin 255) (Fin 0) (Fin 0) False ready = ready"
    "length (sceneObjects (drawCircle (Fin 50) (Fin 100) (Fin 20) (Fin 255) (Fin 0) (Fin 0) True ready)) = 1"
    using drawCircle_filter[of True "Fin 9" "Fin 10" "Fin 50" "Fin 255" "Fin 0" "Fin 0" ready]
    by (auto simp add: ready_tracked)
  ultimately show ?thesis using h by blast
qed

section \<open>Initialisation\<close>

text \<open>
  C7: \<^verbatim>\<open>initialize()\<close> throws if and only if the container element is absent, and then
  it has done nothing but store the null; when the element exists it returns the logical
  dimensions, 800 by 600.
\<close>

theorem initialize_fatal_iff:
  "((\<exists>e. fst (initialize env s) = Inl e) \<longleftrightarrow> \<not> containerPresent env) \<and>
   (\<not> containerPresent env \<longrightarrow>
      initialize env s = (Inl ContainerNotFound, s\<lparr>container := False\<rparr>)) \<and>
   (containerPresent env \<longrightarrow> fst (initialize env s) = Inr (Fin 800, Fin 600)) \<and>
   (containerPresent env \<longrightarrow> getDimensions (snd (initialize env s)) = (Fin 800, Fin 600))"
  by (simp add: initialize_def Let_def originalWidth_def originalHeight_def getDimensions_def)

theorem initialize_fatal_iff_witness:
  "containerPresent (testBrowser True [] True) \<and>
   fst (initialize (testBrowser True [] True) (new_ThreeJSManager True)) = Inr (Fin 800, Fin 600) \<and>
   \<not> containerPresent (testBrowser False [] True) \<and>
   (\<exists>e. fst (initialize (testBrowser False [] True) (new_ThreeJSManager True)) = Inl e)"
proof -
  have h: "containerPresent (testBrowser True [] True)" "\<not> containerPresent (testBrowser False [] True)"
    by (simp_all add: testBrowser_def)
  from h initialize_fatal_iff[of "testBrowser True [] True" "new_ThreeJSManager True"]
    initialize_fatal_iff[of "testBrowser False [] True" "new_ThreeJSManager True"]
  show ?thesis by blast
qed

section \<open>Hover\<close>

lemma screenToWorld_keeps:
  "currentHoverPosition (snd (screenToWorld env cx cy s)) = currentHoverPosition s"
  "forwarded (snd (screenToWorld env cx cy s)) = forwarded s"
  "(snd (screenToWorld env cx cy s))\<lparr>mouse := mouse s, raycaster := raycaster s\<rparr> = s"
  by (simp_all add: screenToWorld_def Let_def split: prod.splits list.splits)

lemma screenToWorld_state:
  "snd (screenToWorld env cx cy s) =
     s\<lparr>mouse := mouse (snd (screenToWorld env cx cy s)),
       raycaster := raycaster (snd (screenToWorld env cx cy s))\<rparr>"
  by (simp add: screenToWorld_def Let_def split: prod.splits list.splits)

lemma handleMouseMove_miss:
  "fst (screenToWorld env (fst c) (snd c) s) = None \<Longrightarrow>
   currentHoverPosition (handleMouseMove env c s) = currentHoverPosition s"
  using screenToWorld_keeps(1)[where env = env and cx = "fst c" and cy = "snd c" and s = s]
  by (cases "screenToWorld env (fst c) (snd c) s") (simp add: handleMouseMove_def)

lemma handleTouchMove_miss:
  "fst (screenToWorld env (fst c) (snd c) s) = None \<Longrightarrow>
   currentHoverPosition (handleTouchMove env [c] s) = currentHoverPosition s"
  using screenToWorld_keeps(1)[where env = env and cx = "fst c" and cy = "snd c" and s = s]
  by (cases "screenToWorld env (fst c) (snd c) s") (simp add: handleTouchMove_def)

lemma handleTouchStart_miss:
  "fst (screenToWorld env (fst c) (snd c) s) = None \<Longrightarrow>
   currentHoverPosition (handleTouchStart env [c] s) = currentHoverPosition s"
  using screenToWorld_keeps(1)[where env = env and cx = "fst c" and cy = "snd c" and s = s]
  by (cases "screenToWorld env (fst c) (snd c) s") (simp add: handleTouchStart_def)

lemma handleTouch_other:
  "length touches \<noteq> 1 \<Longrightarrow> handleTouchMove env touches s = s"
  "length touches \<noteq> 1 \<Longrightarrow> handleTouchStart env touches s = s"
  by (cases touches; cases "tl touches"; simp add: handleTouchMove_def handleTouchStart_def)+

lemma handleClick_hover:
  "currentHoverPosition (handleClick env c s) = currentHoverPosition s"
  using screenToWorld_keeps(1)[where env = env and cx = "fst c" and cy = "snd c" and s = s]
  by (cases "screenToWorld env (fst c) (snd c) s")
     (auto simp add: handleClick_def Let_def split: option.splits prod.splits)

lemma handleResize_hover:
  "currentHoverPosition (handleResize env s) = currentHoverPosition s"
  by (simp add: handleResize_def Let_def)

text \<open>
  C9: when the ray of a pointer-move or touch-move event misses the ground plane, the
  stored hover position keeps its value; an event changes the hover position only if it
  is a pointer-leave, a touch-end, or a move or touch-start of a single pointer whose ray
  meets the ground plane.
\<close>

theorem hover_kept_on_miss:
  "(fst (screenToWorld env (fst c) (snd c) s) = None \<longrightarrow>
      currentHoverPosition (handleMouseMove env c s) = currentHoverPosition s \<and>
      currentHoverPosition (handleTouchMove env [c] s) = currentHoverPosition s) \<and>
   (currentHoverPosition (handleEvent env ev s) \<noteq> currentHoverPosition s \<longrightarrow>
      ev = MouseLeave \<or> ev = TouchEnd \<or>
      (\<exists>p. (ev = MouseMove p \<or> ev = TouchStart [p] \<or> ev = TouchMove [p]) \<and>
           fst (screenToWorld env (fst p) (snd p) s) \<noteq> None))"
proof (intro conjI impI)
  assume "fst (screenToWorld env (fst c) (snd c) s) = None"
  then show "currentHoverPosition (handleMouseMove env c s) = currentHoverPosition s"
    "currentHoverPosition (handleTouchMove env [c] s) = currentHoverPosition s"
    by (simp_all add: handleMouseMove_miss handleTouchMove_miss)
next
  assume ch: "currentHoverPosition (handleEvent env ev s) \<noteq> currentHoverPosition s"
  show "ev = MouseLeave \<or> ev = TouchEnd \<or>
      (\<exists>p. (ev = MouseMove p \<or> ev = TouchStart [p] \<or> ev = TouchMove [p]) \<and>
           fst (screenToWorld env (fst p) (snd p) s) \<noteq> None)"
  proof (cases ev)
    case (MouseMove p)
    with ch have "currentHoverPosition (handleMouseMove env p s) \<noteq> currentHoverPosition s"
      by simp
    then have "fst (screenToWorld env (fst p) (snd p) s) \<noteq> None"
      using handleMouseMove_miss[of env p s] by blast
    with MouseMove show ?thesis by blast
  next
    case (Click p)
    with ch show ?thesis by (simp add: handleClick_hover)
  next
    case (TouchStart ts)
    show ?thesis
    proof (cases "length ts = 1")
      case True
      then obtain p where "ts = [p]" by (cases ts) auto
      then have p: "ts = [p]" .
      with ch TouchStart
      have "currentHoverPosition (handleTouchStart env [p] s) \<noteq> currentHoverPosition s"
        by simp
      then have "fst (screenToWorld env (fst p) (snd p) s) \<noteq> None"
        using handleTouchStart_miss[of env p s] by blast
      with TouchStart p show ?thesis by blast
    next
      case False
      with ch TouchStart show ?thesis by (simp add: handleTouch_other)
    qed
  next
    case (TouchMove ts)
    show ?thesis
    proof (cases "length ts = 1")
      case True
      then obtain p where "ts = [p]" by (cases ts) auto
      then have p: "ts = [p]" .
      with ch TouchMove
      have "currentHoverPosition (handleTouchMove env [p] s) \<noteq> currentHoverPosition s"
        by simp
      then have "fst (screenToWorld env (fst p) (snd p) s) \<noteq> None"
        using handleTouchMove_miss[of env p s] by blast
      with TouchMove p show ?thesis by blast
    next
      case False
      with ch TouchMove show ?thesis by (simp add: handleTouch_other)
    qed
  next
    case Resize
    with ch show ?thesis by (simp add: handleResize_hover)
  qed simp_all
qed

lemma screenToWorld_ready_miss:
  "fst (screenToWorld (testBrowser True [] True) cx cy (ready\<lparr>currentHoverPosition := h\<rparr>)) = None"
  using ready_ground by (simp add: screenToWorld_def testBrowser_def Let_def)

theorem hover_kept_on_miss_witness:
  "fst (screenToWorld (testBrowser True [] True) (fst (Fin 10, Fin 10)) (snd (Fin 10, Fin 10))
      (ready\<lparr>currentHoverPosition := (Fin 140, Fin 80)\<rparr>)) = None \<and>
   currentHoverPosition (handleMouseMove (testBrowser True [] True) (Fin 10, Fin 10)
      (ready\<lparr>currentHoverPosition := (Fin 140, Fin 80)\<rparr>)) = (Fin 140, Fin 80) \<and>
   currentHoverPosition (handleTouchMove (testBrowser True [] True) [(Fin 10, Fin 10)]
      (ready\<lparr>currentHoverPosition := (Fin 140, Fin 80)\<rparr>)) = (Fin 140, Fin 80) \<and>
   currentHoverPosition (handleEvent (testBrowser True [] True) MouseLeave
      (ready\<lparr>currentHoverPosition := (Fin 140, Fin 80)\<rparr>)) \<noteq> (Fin 140, Fin 80)"
  using hover_kept_on_miss[of "testBrowser True [] True" "(Fin 10, Fin 10)"
      "ready\<lparr>currentHoverPosition := (Fin 140, Fin 80)\<rparr>" MouseLeave]
    screenToWorld_ready_miss[of "Fin 10" "Fin 10" "(Fin 140, Fin 80)"]
  by (simp add: handleMouseLeave_def)

section \<open>Clicks\<close>

lemma screenToWorld_result:
  "fst (screenToWorld env cx cy s) = Some (wx, wy, wz) \<longleftrightarrow>
     groundPlane s \<noteq> None \<and>
     (\<exists>px py pz rest.
        intersectGround env (mouse (snd (screenToWorld env cx cy s))) = (px, py, pz) # rest \<and>
        wx = snap px \<and> wy = Fin 0 \<and> wz = snap pz)"
  by (auto simp add: screenToWorld_def Let_def split: prod.splits list.splits)

lemma screenToWorld_none:
  "fst (screenToWorld env cx cy s) = None \<longleftrightarrow>
     groundPlane s = None \<or> intersectGround env (mouse (snd (screenToWorld env cx cy s))) = []"
  by (auto simp add: screenToWorld_def Let_def split: prod.splits list.splits)

text \<open>
  What \<^verbatim>\<open>screenToWorld\<close> returns for a hit on the ground plane is a fixed point of the
  snap.
\<close>

lemma screenToWorld_snapped:
  assumes "fst (screenToWorld env cx cy s) = Some (wx, wy, wz)"
    and "intersectGround env (mouse (snd (screenToWorld env cx cy s))) = (Fin a, py, Fin b) # rest"
    and "\<bar>a\<bar> \<le> 400" and "\<bar>b\<bar> \<le> 300"
  shows "snap wx = wx \<and> snap wz = wz"
proof -
  from assms(1,2) have w: "wx = snap (Fin a)" "wz = snap (Fin b)"
    by (simp_all add: screenToWorld_result)
  have "\<bar>a\<bar> \<le> 2 ^ 53" "\<bar>b\<bar> \<le> 2 ^ 53" using assms(3,4) by simp_all
  then show ?thesis
    using snap_value[of a] snap_value[of b] snap_snapped unfolding w by auto
qed





text \<open>
  The first game coordinate of a forwarded click is 20 more than a multiple of 40, so it
  is never 120.
\<close>

lemma snapped_game_x:
  assumes "\<bar>a\<bar> \<le> 2 ^ 53"
  shows "\<exists>k. fst (worldToGameCoords (snap (Fin a)) wy wz) = Fin (of_int (40 * k + 420))"
proof -
  from snap_value[OF assms] obtain k where k: "\<bar>k\<bar> \<le> 2 ^ 48"
    "snap (Fin a) = Fin (of_int (40 * k + 20))" by blast
  have "fl (of_int (40 * k + 20) + 400) = Fin (of_int (40 * k + 20) + 400)"
  proof (rule fl_exact[where m = "10 * k + 105" and j = 2])
    show "(of_int (40 * k + 20) :: rat) + 400 = of_int (10 * k + 105) * 2 powi 2" by simp
    show "\<bar>10 * k + 105\<bar> < 2 ^ 53" using k(1) by simp
    have "(of_int \<bar>k\<bar> :: rat) \<le> of_int (2 ^ 48)" using k(1) by (simp only: of_int_le_iff)
    then have "\<bar>of_int k :: rat\<bar> \<le> 2 ^ 48" by simp
    then have "\<bar>of_int (40 * k + 20) + 400 :: rat\<bar> \<le> 2 ^ 60"
      by (simp add: abs_if split: if_splits)
    then show "\<bar>of_int (40 * k + 20) + 400 :: rat\<bar> < 2 powi 1024"
      by (rule small_no_overflow)
  qed simp
  then have "fst (worldToGameCoords (snap (Fin a)) wy wz) = Fin (of_int (40 * k + 420))"
    by (simp add: worldToGameCoords_def half_extents k(2))
  then show ?thesis by blast
qed

lemma snapped_game_x_not_120:
  assumes "\<bar>a\<bar> \<le> 2 ^ 53"
  shows "fst (worldToGameCoords (snap (Fin a)) wy wz) \<noteq> Fin 120"
proof
  assume eq: "fst (worldToGameCoords (snap (Fin a)) wy wz) = Fin 120"
  from snapped_game_x[OF assms, of wy wz] obtain k
    where "fst (worldToGameCoords (snap (Fin a)) wy wz) = Fin (of_int (40 * k + 420))" by blast
  with eq have "(of_int (40 * k + 420) :: rat) = of_int 120" by simp
  then have "40 * k + 420 = 120" by (simp only: of_int_eq_iff)
  then show False by presburger
qed

section \<open>Long-lived and tracked objects stay apart\<close>

lemma held_simps [simp]: "held None = []" "held (Some obj) = [obj]"
  by (simp_all add: held_def)

lemma footprint_update [simp]:
  "footprint (obj\<lparr>visible := v\<rparr>) = footprint obj"
  "footprint (obj\<lparr>position := p\<rparr>) = footprint obj"
  "footprint (obj\<lparr>scale := sc\<rparr>) = footprint obj"
  "footprint (obj\<lparr>colour := c\<rparr>) = footprint obj"
  by (simp_all add: footprint_def resources_def)

lemma apart_new: "apart (new_ThreeJSManager has2d)"
  by (simp add: apart_def longLived_def tracked_def permanent_def new_ThreeJSManager_def Let_def
      lightIds_def footprint_def resources_def light_def)

lemma apart_fields:
  assumes "ambientLight s' = ambientLight s" "directionalLight s' = directionalLight s"
    and "map footprint (held (groundPlane s')) = map footprint (held (groundPlane s))"
    and "map footprint (held (towerPreviewMesh s')) = map footprint (held (towerPreviewMesh s))"
    and "map footprint (held (rangePreviewMesh s')) = map footprint (held (rangePreviewMesh s))"
    and "map footprint (held (invalidPlacementMesh s'))
           = map footprint (held (invalidPlacementMesh s))"
    and "sceneObjects s' = sceneObjects s" "nextId s' = nextId s"
  shows "apart s' = apart s"
proof -
  have "map footprint (permanent s') = map footprint (permanent s)"
    using assms by (simp add: permanent_def)
  then have "footprint ` set (permanent s') = footprint ` set (permanent s)"
    by (metis list.set_map)
  then have "longLived s' = longLived s" by (simp add: longLived_def)
  moreover have "tracked s' = tracked s" using assms by (simp add: tracked_def)
  ultimately show ?thesis using assms by (simp add: apart_def)
qed

lemma clearLoop_eq:
  "clearLoop objs s = s\<lparr>scene := fold remove1 (map oid objs) (scene s),
                          disposed := disposed s @ concat (map disposeOf objs)\<rparr>"
  by (induction objs arbitrary: s) simp_all

lemma held_hide [simp]: "map footprint (held (hide x)) = map footprint (held x)"
  by (cases x) simp_all

lemma apart_clear: "apart s \<Longrightarrow> apart (clear s)"
proof -
  assume a: "apart s"
  have "longLived (clear s) = longLived s" "nextId (clear s) = nextId s"
    by (simp_all add: clear_def Let_def clearLoop_eq longLived_def permanent_def
        split: option.splits)
  moreover have "tracked (clear s) = {}" by (simp add: tracked_def clear_sceneObjects)
  ultimately show "apart (clear s)" using a by (simp add: apart_def)
qed

lemma apart_input [simp]:
  "apart (s\<lparr>mouse := m\<rparr>) = apart s"
  "apart (s\<lparr>raycaster := rc\<rparr>) = apart s"
  "apart (s\<lparr>currentHoverPosition := h\<rparr>) = apart s"
  "apart (s\<lparr>forwarded := f\<rparr>) = apart s"
  by (rule apart_fields; simp)+

lemma apart_screenToWorld [simp]: "apart (snd (screenToWorld env cx cy s)) = apart s"
  by (subst screenToWorld_state) simp

lemma apart_hide [simp]:
  "apart (s\<lparr>towerPreviewMesh := hide (towerPreviewMesh s),
             rangePreviewMesh := hide (rangePreviewMesh s),
             invalidPlacementMesh := hide (invalidPlacementMesh s)\<rparr>) = apart s"
  by (rule apart_fields) simp_all

lemma apart_handleResize [simp]: "apart (handleResize env s) = apart s"
  by (rule apart_fields) (simp_all add: handleResize_def Let_def)

lemma apart_addTracked:
  assumes a: "apart s" and fp: "footprint obj = {nextId s, nextId s + 1, nextId s + 2}"
  shows "apart (addTracked obj (nextId s + 3) s)"
proof -
  have ll: "longLived (addTracked obj (nextId s + 3) s) = longLived s"
    by (simp add: longLived_def permanent_def addTracked_def)
  have tr: "tracked (addTracked obj (nextId s + 3) s) = tracked s \<union> footprint obj"
    by (auto simp add: tracked_def addTracked_def)
  have nx: "nextId (addTracked obj (nextId s + 3) s) = nextId s + 3"
    by (simp add: addTracked_def)
  have below: "\<forall>i \<in> longLived s \<union> tracked s. i < nextId s"
    and disj: "longLived s \<inter> tracked s = {}"
    using a by (simp_all add: apart_def)
  have "longLived s \<inter> footprint obj = {}"
  proof (rule ccontr)
    assume "longLived s \<inter> footprint obj \<noteq> {}"
    then obtain i where i: "i \<in> longLived s" "i \<in> footprint obj" by blast
    from below i(1) have "i < nextId s" by blast
    with fp i(2) show False by auto
  qed
  with disj have d: "longLived s \<inter> (tracked s \<union> footprint obj) = {}" by blast
  have b: "\<forall>i \<in> longLived s \<union> (tracked s \<union> footprint obj). i < nextId s + 3"
  proof
    fix i assume "i \<in> longLived s \<union> (tracked s \<union> footprint obj)"
    then consider "i \<in> longLived s \<union> tracked s" | "i \<in> footprint obj" by blast
    then show "i < nextId s + 3"
    proof cases
      case 1
      with below have "i < nextId s" by blast
      then show ?thesis by simp
    next
      case 2
      with fp show ?thesis by auto
    qed
  qed
  show ?thesis unfolding apart_def ll tr nx using d b by blast
qed

lemma apart_drawRect: "apart s \<Longrightarrow> apart (drawRect x y w h r g b s)"
  by (auto simp add: drawRect_def Let_def footprint_def resources_def split: prod.splits
      intro!: apart_addTracked)

lemma apart_drawCircle: "apart s \<Longrightarrow> apart (drawCircle x y radius r g b fill s)"
  by (auto simp add: drawCircle_def Let_def footprint_def resources_def split: prod.splits
      intro!: apart_addTracked)

lemma apart_drawLine: "apart s \<Longrightarrow> apart (drawLine x1 y1 x2 y2 t r g b s)"
  by (auto simp add: drawLine_def Let_def footprint_def resources_def split: prod.splits
      intro!: apart_addTracked)

lemma apart_drawTriangle: "apart s \<Longrightarrow> apart (drawTriangle x1 y1 x2 y2 x3 y3 r g b fill s)"
  by (auto simp add: drawTriangle_def Let_def footprint_def resources_def split: prod.splits
      intro!: apart_addTracked)

lemma apart_draw: "apart s \<Longrightarrow> apart (draw c s)"
  by (cases c) (simp_all add: apart_drawRect apart_drawCircle apart_drawLine apart_drawTriangle)

lemma apart_drawText [simp]: "apart (drawText env x y text size' r g b s) = apart s"
  by (rule apart_fields) (simp_all add: drawText_def Let_def split: option.splits prod.splits)

lemma apart_setSelectedTowerType [simp]: "apart (setSelectedTowerType type s) = apart s"
  by (rule apart_fields) (simp_all add: setSelectedTowerType_def)

lemma held_map_option:
  "(\<And>obj. footprint (f obj) = footprint obj) \<Longrightarrow>
   map footprint (held (map_option f x)) = map footprint (held x)"
  by (cases x) simp_all

lemma apart_drawTowerPreview [simp]: "apart (drawTowerPreview x y canPlace range' s) = apart s"
  by (rule apart_fields)
     (simp_all add: drawTowerPreview_def Let_def held_map_option split: prod.splits)

lemma apart_handleMouseMove [simp]: "apart (handleMouseMove env p s) = apart s"
proof -
  obtain r s' where st: "screenToWorld env (fst p) (snd p) s = (r, s')"
    by (cases "screenToWorld env (fst p) (snd p) s")
  then have "apart s' = apart s"
    using apart_screenToWorld[of env "fst p" "snd p" s] by simp
  then show ?thesis
    by (simp add: handleMouseMove_def st split: option.splits prod.splits)
qed

lemma apart_handleClick [simp]: "apart (handleClick env p s) = apart s"
proof -
  obtain r s' where st: "screenToWorld env (fst p) (snd p) s = (r, s')"
    by (cases "screenToWorld env (fst p) (snd p) s")
  then have "apart s' = apart s"
    using apart_screenToWorld[of env "fst p" "snd p" s] by simp
  then show ?thesis
    by (simp add: handleClick_def st Let_def split: option.splits prod.splits)
qed

lemma apart_handleTouchStart [simp]: "apart (handleTouchStart env ts s) = apart s"
proof (cases "length ts = 1")
  case True
  then obtain p where p: "ts = [p]" by (cases ts) auto
  obtain r s' where st: "screenToWorld env (fst p) (snd p) s = (r, s')"
    by (cases "screenToWorld env (fst p) (snd p) s")
  then have "apart s' = apart s"
    using apart_screenToWorld[of env "fst p" "snd p" s] by simp
  then show ?thesis
    by (simp add: handleTouchStart_def p st split: option.splits prod.splits)
next
  case False
  then show ?thesis by (simp add: handleTouch_other)
qed

lemma apart_handleTouchMove [simp]: "apart (handleTouchMove env ts s) = apart s"
proof (cases "length ts = 1")
  case True
  then obtain p where p: "ts = [p]" by (cases ts) auto
  obtain r s' where st: "screenToWorld env (fst p) (snd p) s = (r, s')"
    by (cases "screenToWorld env (fst p) (snd p) s")
  then have "apart s' = apart s"
    using apart_screenToWorld[of env "fst p" "snd p" s] by simp
  then show ?thesis
    by (simp add: handleTouchMove_def p st split: option.splits prod.splits)
next
  case False
  then show ?thesis by (simp add: handleTouch_other)
qed

lemma apart_handleTouchEnd [simp]: "apart (handleTouchEnd env s) = apart s"
  by (simp add: handleTouchEnd_def Let_def)

lemma apart_handleMouseLeave [simp]: "apart (handleMouseLeave s) = apart s"
proof -
  have "handleMouseLeave s =
      (s\<lparr>towerPreviewMesh := hide (towerPreviewMesh s),
         rangePreviewMesh := hide (rangePreviewMesh s),
         invalidPlacementMesh := hide (invalidPlacementMesh s)\<rparr>)
        \<lparr>currentHoverPosition := (Fin (- 1), Fin (- 1))\<rparr>"
    by (simp add: handleMouseLeave_def)
  then show ?thesis by (simp only: apart_input apart_hide)
qed

lemma apart_handleEvent: "apart s \<Longrightarrow> apart (handleEvent env ev s)"
  by (cases ev) simp_all

lemma apart_createGroundPlane:
  assumes a: "apart s"
  shows "apart (createGroundPlane s)"
proof -
  let ?n = "nextId s"
  have below: "\<forall>i \<in> longLived s \<union> tracked s. i < ?n"
    and disj: "longLived s \<inter> tracked s = {}"
    using a by (simp_all add: apart_def)
  have lights: "set lightIds \<union> footprint (ambientLight s) \<union> footprint (directionalLight s)
      \<subseteq> longLived s"
    by (auto simp add: longLived_def permanent_def)
  have tr: "tracked (createGroundPlane s) = tracked s"
    by (simp add: tracked_def createGroundPlane_def createTowerPreviewMeshes_def Let_def)
  have nx: "nextId (createGroundPlane s) = ?n + 19"
    by (simp add: createGroundPlane_def createTowerPreviewMeshes_def Let_def)
  have ll: "longLived (createGroundPlane s) =
      set lightIds \<union> footprint (ambientLight s) \<union> footprint (directionalLight s) \<union>
      {?n, ?n + 2, ?n + 3, ?n + 7, ?n + 8, ?n + 9, ?n + 10, ?n + 11, ?n + 12, ?n + 13}"
    by (auto simp add: longLived_def permanent_def createGroundPlane_def
        createTowerPreviewMeshes_def Let_def footprint_def resources_def)
  have t_below: "\<forall>i \<in> tracked s. i < ?n" using below by blast
  have l_below: "\<forall>i \<in> set lightIds \<union> footprint (ambientLight s) \<union> footprint (directionalLight s).
      i < ?n"
    using below lights by blast
  have d: "longLived (createGroundPlane s) \<inter> tracked (createGroundPlane s) = {}"
  proof (rule ccontr)
    assume "longLived (createGroundPlane s) \<inter> tracked (createGroundPlane s) \<noteq> {}"
    then obtain i where i: "i \<in> longLived (createGroundPlane s)" "i \<in> tracked s"
      unfolding tr by blast
    from i(2) t_below have lt: "i < ?n" by blast
    from i(2) disj have "i \<notin> longLived s" by blast
    with lights have "i \<notin> set lightIds \<union> footprint (ambientLight s) \<union> footprint (directionalLight s)"
      by blast
    with i(1) lt show False unfolding ll by auto
  qed
  have b: "\<forall>i \<in> longLived (createGroundPlane s) \<union> tracked (createGroundPlane s). i < ?n + 19"
  proof
    fix i assume "i \<in> longLived (createGroundPlane s) \<union> tracked (createGroundPlane s)"
    then consider "i \<in> tracked s"
      | "i \<in> set lightIds \<union> footprint (ambientLight s) \<union> footprint (directionalLight s)"
      | "i \<in> {?n, ?n + 2, ?n + 3, ?n + 7, ?n + 8, ?n + 9, ?n + 10, ?n + 11, ?n + 12, ?n + 13}"
      unfolding ll tr by blast
    then show "i < ?n + 19"
    proof cases
      case 1
      with t_below have "i < ?n" by blast
      then show ?thesis by simp
    next
      case 2
      with l_below have "i < ?n" by blast
      then show ?thesis by simp
    next
      case 3
      then show ?thesis by auto
    qed
  qed
  show ?thesis unfolding apart_def nx using d b by blast
qed

lemma apart_misc [simp]:
  "apart (s\<lparr>container := c\<rparr>) = apart s"
  "apart (s\<lparr>rendererSize := r\<rparr>) = apart s"
  "apart (s\<lparr>domChildren := dc\<rparr>) = apart s"
  "apart (s\<lparr>textCanvas := tc\<rparr>) = apart s"
  "apart (s\<lparr>textContext := tx\<rparr>) = apart s"
  "apart (s\<lparr>listeners := ls\<rparr>) = apart s"
  by (rule apart_fields; simp)+

lemma apart_initialize: "apart s \<Longrightarrow> apart (snd (initialize env s))"
  by (simp add: initialize_def Let_def setupEventListeners_def apart_createGroundPlane)

lemma apart_perform: "apart s \<Longrightarrow> apart (perform c s)"
  by (cases c) (simp_all add: apart_initialize apart_clear apart_draw apart_handleEvent)

lemma apart_run: "apart s \<Longrightarrow> apart (run cs s)"
  by (induction cs arbitrary: s) (simp_all add: apart_perform)

lemma apart_reachable: "apart (run cs (new_ThreeJSManager has2d))"
  by (rule apart_run) (rule apart_new)

lemma fold_remove1_keeps:
  "i \<in> set xs \<Longrightarrow> i \<notin> set js \<Longrightarrow> i \<in> set (fold remove1 js xs)"
proof (induction js arbitrary: xs)
  case Nil
  then show ?case by simp
next
  case (Cons j js)
  then have "i \<in> set (remove1 j xs)" by (simp add: in_set_remove1)
  with Cons show ?case by simp
qed

lemma clear_keeps_scene:
  assumes "i \<in> set (scene s)" "i \<notin> tracked s"
  shows "i \<in> set (scene (clear s))"
proof -
  have "i \<notin> set (map oid (sceneObjects s))"
    using assms(2) by (auto simp add: tracked_def footprint_def)
  with assms(1) show ?thesis by (simp add: clear_scene fold_remove1_keeps)
qed

lemma clear_keeps_resources:
  assumes "h \<notin> set (disposed s)" "h \<notin> tracked s"
  shows "h \<notin> set (disposed (clear s))"
proof -
  have "set (disposeOf obj) \<subseteq> footprint obj" for obj
    by (auto simp add: disposeOf_def footprint_def)
  then have "set (concat (map disposeOf (sceneObjects s))) \<subseteq> tracked s"
    by (auto simp add: tracked_def)
  with assms show ?thesis by (auto simp add: clear_disposed)
qed

lemma clear_fields:
  "towerPreviewMesh (clear s) = towerPreviewMesh s"
  "rangePreviewMesh (clear s) = rangePreviewMesh s"
  "invalidPlacementMesh (clear s) = invalidPlacementMesh s"
  "groundPlane (clear s) = groundPlane s"
  "ambientLight (clear s) = ambientLight s"
  "directionalLight (clear s) = directionalLight s"
  by (simp_all add: clear_def Let_def clearLoop_eq split: option.splits)

text \<open>
  C8: \<^verbatim>\<open>clear()\<close> leaves the three preview primitives, the ground plane and the lights as
  they are (visibility, position and colour included). In every state the manager can
  reach, no long-lived object is in the tracked collection, so \<^verbatim>\<open>clear()\<close> neither
  removes one of them from the scene nor disposes one of their resources.
\<close>

theorem clear_keeps_long_lived:
  assumes "s = run cs (new_ThreeJSManager has2d)"
  shows "towerPreviewMesh (clear s) = towerPreviewMesh s \<and>
         rangePreviewMesh (clear s) = rangePreviewMesh s \<and>
         invalidPlacementMesh (clear s) = invalidPlacementMesh s \<and>
         groundPlane (clear s) = groundPlane s \<and>
         ambientLight (clear s) = ambientLight s \<and>
         directionalLight (clear s) = directionalLight s \<and>
         (\<forall>obj \<in> set (permanent s). obj \<notin> set (sceneObjects s)) \<and>
         (\<forall>i \<in> longLived s.
            (i \<in> set (scene s) \<longrightarrow> i \<in> set (scene (clear s))) \<and>
            (i \<notin> set (disposed s) \<longrightarrow> i \<notin> set (disposed (clear s))))"
proof -
  have a: "apart s" unfolding assms by (rule apart_reachable)
  then have disj: "longLived s \<inter> tracked s = {}" by (simp add: apart_def)
  have "obj \<notin> set (sceneObjects s)" if "obj \<in> set (permanent s)" for obj
  proof
    assume "obj \<in> set (sceneObjects s)"
    then have "oid obj \<in> tracked s" by (auto simp add: tracked_def footprint_def)
    moreover from that have "oid obj \<in> longLived s" by (auto simp add: longLived_def footprint_def)
    ultimately show False using disj by blast
  qed
  moreover have "(i \<in> set (scene s) \<longrightarrow> i \<in> set (scene (clear s))) \<and>
            (i \<notin> set (disposed s) \<longrightarrow> i \<notin> set (disposed (clear s)))" if "i \<in> longLived s" for i
  proof -
    from that disj have "i \<notin> tracked s" by blast
    then show ?thesis by (simp add: clear_keeps_scene clear_keeps_resources)
  qed
  ultimately show ?thesis by (simp add: clear_fields)
qed

lemma busy_eq:
  "busy = drawLine (Fin 0) (Fin 0) (Fin 10) (Fin 10) (Fin 1) (Fin 255) (Fin 255) (Fin 255)
            (drawRect (Fin 0) (Fin 0) (Fin 10) (Fin 10) (Fin 255) (Fin 255) (Fin 255) ready)"
  by (simp add: busy_def ready_def)

lemma ready_tower_footprint:
  "\<exists>m. towerPreviewMesh ready = Some m \<and> footprint m = {11, 12, 13} \<and> oid m = 13"
  by (auto simp add: init_defs footprint_def resources_def)

lemma busy_facts:
  "towerPreviewMesh busy = towerPreviewMesh ready"
  "scene busy = scene ready @ [25, 28]"
  "disposed busy = []"
  "map kind (sceneObjects busy) = [MeshObj, LineObj]"
  "map resources (sceneObjects busy) = [[23, 24], [26, 27]]"
  by (simp_all add: busy_eq drawLine_def drawRect_def addTracked_def Let_def ready_nextId
      ready_tracked resources_def split: prod.splits)

theorem clear_keeps_long_lived_witness:
  "busy = run [Initialize (testBrowser True [] True),
               Draw (DrawRect (Fin 0) (Fin 0) (Fin 10) (Fin 10) (Fin 255) (Fin 255) (Fin 255)),
               Draw (DrawLine (Fin 0) (Fin 0) (Fin 10) (Fin 10) (Fin 1) (Fin 255) (Fin 255) (Fin 255))]
              (new_ThreeJSManager True) \<and>
   map kind (sceneObjects busy) = [MeshObj, LineObj] \<and>
   13 \<in> longLived busy \<and> 13 \<in> set (scene busy) \<and> 13 \<in> set (scene (clear busy)) \<and>
   11 \<in> longLived busy \<and> 11 \<notin> set (disposed busy) \<and> 11 \<notin> set (disposed (clear busy)) \<and>
   towerPreviewMesh (clear busy) = towerPreviewMesh busy"
proof -
  have h: "busy = run [Initialize (testBrowser True [] True),
               Draw (DrawRect (Fin 0) (Fin 0) (Fin 10) (Fin 10) (Fin 255) (Fin 255) (Fin 255)),
               Draw (DrawLine (Fin 0) (Fin 0) (Fin 10) (Fin 10) (Fin 1) (Fin 255) (Fin 255) (Fin 255))]
              (new_ThreeJSManager True)"
    by (simp add: busy_def)
  obtain m where m: "towerPreviewMesh busy = Some m" "footprint m = {11, 12, 13}"
    using ready_tower_footprint busy_facts(1) by auto
  then have "m \<in> set (permanent busy)" by (simp add: permanent_def)
  with m(2) have l: "13 \<in> longLived busy" "11 \<in> longLived busy"
    by (auto simp add: longLived_def)
  have sc: "13 \<in> set (scene busy)" "11 \<notin> set (disposed busy)"
    by (simp_all add: busy_facts ready_scene)
  from clear_keeps_long_lived[OF h] l sc busy_facts(4) h show ?thesis by blast
qed

end
